theory Spec2Isabelle
  imports Main "HOL-Library.Word"
begin

section \<open>Python values\<close>

text \<open>
  The agents exchange untyped dictionaries. A Python object is a value of \<open>pyval\<close>;
  a \<open>dict\<close> is an association list in insertion order (keys are strings or integers),
  a \<open>float\<close> is the bit pattern of its IEEE double, \<open>bytes\<close> and \<open>str\<close> are
  character lists. A character stands for the code point of the same number.
\<close>

datatype pykey = KStr string | KInt int

datatype pyval =
    PNone
  | PBool bool
  | PInt int
  | PFloat "64 word"
  | PStr string
  | PBytes string
  | PList "pyval list"
  | PTuple "pyval list"
  | PDict "(pykey \<times> pyval) list"

type_synonym pydict = "(pykey \<times> pyval) list"

text \<open>An exception is its class name and the text \<open>str(e)\<close> gives.\<close>

datatype pyexn = Raised string string

fun exn_str :: "pyexn \<Rightarrow> string" where
  "exn_str (Raised cls msg) = msg"

text \<open>\<open>d.get(k)\<close>, \<open>d.get(k, default)\<close>, \<open>k in d\<close> and \<open>d[k] = v\<close>.\<close>

definition dict_get :: "pydict \<Rightarrow> string \<Rightarrow> pyval" where
  "dict_get d k = (case map_of d (KStr k) of None \<Rightarrow> PNone | Some v \<Rightarrow> v)"

definition dict_get_default :: "pydict \<Rightarrow> string \<Rightarrow> pyval \<Rightarrow> pyval" where
  "dict_get_default d k dflt = (case map_of d (KStr k) of None \<Rightarrow> dflt | Some v \<Rightarrow> v)"

fun dict_set :: "('k \<times> 'v) list \<Rightarrow> 'k \<Rightarrow> 'v \<Rightarrow> ('k \<times> 'v) list" where
  "dict_set [] k v = [(k, v)]"
| "dict_set ((k', v') # d) k v = (if k' = k then (k', v) # d else (k', v') # dict_set d k v)"

text \<open>\<open>{**a, **b}\<close>: the entries of \<open>b\<close> are stored into a copy of \<open>a\<close>, one after the other.\<close>

definition dict_merge :: "pydict \<Rightarrow> pydict \<Rightarrow> pydict" where
  "dict_merge a b = foldl (\<lambda>d (k, v). dict_set d k v) a b"

text \<open>Truth value of an object, as \<open>not x\<close> and \<open>all([...])\<close> test it.\<close>

fun truthy :: "pyval \<Rightarrow> bool" where
  "truthy PNone = False"
| "truthy (PBool b) = b"
| "truthy (PInt i) = (i \<noteq> 0)"
| "truthy (PFloat w) = (take_bit 63 w \<noteq> 0)"
| "truthy (PStr s) = (s \<noteq> [])"
| "truthy (PBytes s) = (s \<noteq> [])"
| "truthy (PList xs) = (xs \<noteq> [])"
| "truthy (PTuple xs) = (xs \<noteq> [])"
| "truthy (PDict d) = (d \<noteq> [])"

section \<open>Strings: \<open>str.strip\<close>, \<open>str.split\<close>, \<open>str.join\<close>, slices\<close>

text \<open>The white space of \<open>str.isspace\<close> among the code points below 256.\<close>

definition is_space :: "char \<Rightarrow> bool" where
  "is_space c =
     (let n = (of_char c :: nat)
      in (9 \<le> n \<and> n \<le> 13) \<or> (28 \<le> n \<and> n \<le> 32) \<or> n = 133 \<or> n = 160)"

definition py_strip :: "string \<Rightarrow> string" where
  "py_strip s = rev (dropWhile is_space (rev (dropWhile is_space s)))"

text \<open>
  \<open>s.split()\<close> with no separator: the maximal runs of characters that are not white
  space. The first argument is the word being read.
\<close>

fun split_from :: "string \<Rightarrow> string \<Rightarrow> string list" where
  "split_from w [] = (if w = [] then [] else [w])"
| "split_from w (c # cs) =
     (if is_space c then (if w = [] then split_from [] cs else w # split_from [] cs)
      else split_from (w @ [c]) cs)"

definition py_split :: "string \<Rightarrow> string list" where
  "py_split s = split_from [] s"

fun py_join :: "string \<Rightarrow> string list \<Rightarrow> string" where
  "py_join sep [] = []"
| "py_join sep [w] = w"
| "py_join sep (w # ws) = w @ sep @ py_join sep ws"

text \<open>
  \<open>xs[lo:hi]\<close>: a negative bound counts from the end, and both bounds are clipped to
  the list.
\<close>

definition slice_bound :: "int \<Rightarrow> nat \<Rightarrow> nat" where
  "slice_bound i n = (if i < 0 then nat (max 0 (int n + i)) else min (nat i) n)"

definition py_slice :: "'a list \<Rightarrow> int \<Rightarrow> int \<Rightarrow> 'a list" where
  "py_slice xs lo hi =
     (let a = slice_bound lo (length xs); b = slice_bound hi (length xs)
      in take (b - a) (drop a xs))"

section \<open>Ingestion Agent: chunking\<close>

text \<open>
  \<open>IngestionAgent._chunk_text\<close>. The loop \<open>for i in range(0, len(words), step)\<close> with
  its \<open>break\<close>: \<open>chunk_loop\<close> is entered with the next value \<open>i\<close> of the range and the
  chunks appended so far. \<open>uuid k\<close> is the identifier the \<open>k\<close>-th call of \<open>uuid.uuid4()\<close>
  made by the loop returns. A range with a negative step starting at 0 is empty; a step
  of 0 is refused by \<open>range\<close> before the loop starts.
\<close>

definition make_chunk ::
  "(nat \<Rightarrow> string) \<Rightarrow> string list \<Rightarrow> string \<Rightarrow> int \<Rightarrow> int \<Rightarrow> nat \<Rightarrow> pyval" where
  "make_chunk uuid words source_file chunk_size i n_chunks =
     (let chunk_words = py_slice words i (i + chunk_size)
      in PDict
          [(KStr ''id'', PStr (uuid n_chunks)),
           (KStr ''text'', PStr (py_join '' '' chunk_words)),
           (KStr ''source_file'', PStr source_file),
           (KStr ''chunk_index'', PInt (int n_chunks)),
           (KStr ''word_count'', PInt (int (length chunk_words))),
           (KStr ''start_word'', PInt i),
           (KStr ''end_word'', PInt (min (i + chunk_size) (int (length words))))])"

function chunk_loop ::
  "(nat \<Rightarrow> string) \<Rightarrow> string list \<Rightarrow> string \<Rightarrow> int \<Rightarrow> int \<Rightarrow> int \<Rightarrow> pyval list
     \<Rightarrow> pyval list" where
  "chunk_loop uuid words source_file chunk_size step i chunks =
     (if 0 < step \<and> i < int (length words) then
        let chunks' = chunks @ [make_chunk uuid words source_file chunk_size i (length chunks)]
        in if i + chunk_size \<ge> int (length words) then chunks'
           else chunk_loop uuid words source_file chunk_size step (i + step) chunks'
      else chunks)"
  by pat_completeness auto
termination
  by (relation "measure (\<lambda>(uuid, words, source_file, chunk_size, step, i, chunks).
        nat (int (length words) - i))") auto

definition chunk_text ::
  "(nat \<Rightarrow> string) \<Rightarrow> string \<Rightarrow> string \<Rightarrow> int \<Rightarrow> int \<Rightarrow> pyexn + pyval list" where
  "chunk_text uuid txt source_file chunk_size overlap =
     (if py_strip txt = [] then Inr []
      else
        let words = py_split txt in
        if chunk_size - overlap = 0 then Inl (Raised ''ValueError'' ''range() arg 3 must not be zero'')
        else Inr (chunk_loop uuid words source_file chunk_size (chunk_size - overlap) 0 []))"

text \<open>Reading a field of a chunk: \<open>None\<close> when the object is no dictionary or has no such key.\<close>

definition chunk_field :: "string \<Rightarrow> pyval \<Rightarrow> pyval option" where
  "chunk_field k c = (case c of PDict d \<Rightarrow> map_of d (KStr k) | _ \<Rightarrow> None)"

text \<open>
  The number of chunks of a text of \<open>n > 0\<close> words under the default window (1000 words,
  overlap 200): one more than the number of offsets \<open>0, 800, ...\<close> at which the window
  does not reach the end of the text.
\<close>

definition n_chunks :: "nat \<Rightarrow> nat" where
  "n_chunks n = (if n \<le> 1000 then 1 else (n - 201) div 800 + 1)"

text \<open>A sequence of identifiers for the examples.\<close>

definition uuid_seq :: "nat \<Rightarrow> string" where
  "uuid_seq k = replicate (Suc k) (CHR ''u'')"

section \<open>The libraries and the environment\<close>

text \<open>
  A vector of \<open>float32\<close> numbers is the list of their bit patterns. The numeric library,
  the similarity index, the term-weighting model, the document parsers, the clock and the
  generators of identifiers and random numbers are not part of the program: they are the
  fields of one parameter, and every function that calls one of them takes it as its
  first argument. Nothing is assumed about them.
\<close>

type_synonym f32 = "32 word"
type_synonym vec = "f32 list"
type_synonym addr = nat

record libs =
  py_repr :: "pyval \<Rightarrow> string"
  now_iso :: "nat \<Rightarrow> string"
  uuid4 :: "nat \<Rightarrow> string"
  re_word :: "char \<Rightarrow> bool"
  tfidf_fit :: "string list \<Rightarrow> pyexn option"
  tfidf_transform :: "string list \<Rightarrow> string \<Rightarrow> pyexn + vec"
  random_vec :: "nat \<Rightarrow> vec"
  norm_positive :: "vec \<Rightarrow> bool"
  div_by_norm :: "vec \<Rightarrow> vec"
  faiss_search :: "vec list \<Rightarrow> vec \<Rightarrow> pyval \<Rightarrow> pyexn + (f32 \<times> int) list"
  f32_to_float :: "f32 \<Rightarrow> 64 word"
  doc_parse :: "pyval \<Rightarrow> string \<Rightarrow> pyexn + string \<times> pydict"
  contextual_response :: "pyval \<Rightarrow> pyval \<Rightarrow> pyexn + string"

text \<open>
  \<^item> \<open>py_repr v\<close>: the text \<open>str(v)\<close> of an object that is no string;
  \<^item> \<open>now_iso n\<close>: \<open>datetime.now().isoformat()\<close> at the \<open>n\<close>-th reading of the clock;
  \<^item> \<open>uuid4 n\<close>: \<open>str(uuid.uuid4())\<close> at the \<open>n\<close>-th call;
  \<^item> \<open>re_word c\<close>: the character class \<open>\w\<close> of the regular expressions;
  \<^item> \<open>tfidf_fit corpus\<close>: the exception \<open>TfidfVectorizer.fit(corpus)\<close> raises, if any;
  \<^item> \<open>tfidf_transform corpus t\<close>: the row \<open>transform([t])\<close> of the vectorizer fitted on
    \<open>corpus\<close>, as an array of \<open>float32\<close>;
  \<^item> \<open>random_vec n\<close>: \<open>np.random.rand(1000).astype(np.float32) * 0.1\<close> at the \<open>n\<close>-th draw;
  \<^item> \<open>norm_positive e\<close>: \<open>np.linalg.norm(e) > 0\<close>; \<open>div_by_norm e\<close>: \<open>e / np.linalg.norm(e)\<close>;
  \<^item> \<open>faiss_search rows q k\<close>: the pairs \<open>zip(similarities[0], indices[0])\<close> that
    \<open>IndexFlatIP.search(q, k)\<close> returns on an index holding \<open>rows\<close>, or its exception;
  \<^item> \<open>f32_to_float x\<close>: \<open>float(x)\<close>;
  \<^item> \<open>doc_parse content parser_type\<close>: what \<open>DocumentParser.parse\<close> returns, as the
    extracted text (the entry \<open>text\<close>, a string for every parser) and the other entries
    of the dictionary, or the exception it raises;
  \<^item> \<open>contextual_response query chunks\<close>: the answer \<open>LocalLLMGenerator\<close> composes from
    a list of chunks that is not empty (\<open>_extract_relevant_info\<close> followed by
    \<open>_generate_contextual_response\<close>), or the exception raised on the way.
\<close>

text \<open>
  What the program reads and changes outside the agents' own fields: the clock, the
  generators, the standard output, and the dictionary objects that are shared by
  reference (\<open>objects\<close> maps an address to the dictionary stored there, \<open>next_addr\<close> is
  the first unused address). \<open>invoked\<close> records the name of every sub-agent whose
  \<open>handle_message\<close> is entered; the program does not read it.
\<close>

record world =
  clock_reads :: nat
  uuid_calls :: nat
  rand_calls :: nat
  stdout :: "string list"
  objects :: "addr \<Rightarrow> pydict"
  next_addr :: addr
  invoked :: "string list"

definition py_str :: "libs \<Rightarrow> pyval \<Rightarrow> string" where
  "py_str L v = (case v of PStr s \<Rightarrow> s | _ \<Rightarrow> py_repr L v)"

fun type_name :: "pyval \<Rightarrow> string" where
  "type_name PNone = ''NoneType''"
| "type_name (PBool b) = ''bool''"
| "type_name (PInt i) = ''int''"
| "type_name (PFloat w) = ''float''"
| "type_name (PStr s) = ''str''"
| "type_name (PBytes s) = ''bytes''"
| "type_name (PList xs) = ''list''"
| "type_name (PTuple xs) = ''tuple''"
| "type_name (PDict d) = ''dict''"

text \<open>
  Whether an object can be a dictionary key, and the type named by the \<open>TypeError\<close> when
  it cannot.
\<close>

fun unhashable :: "pyval \<Rightarrow> string option" and unhashable_list :: "pyval list \<Rightarrow> string option" where
  "unhashable (PList xs) = Some ''list''"
| "unhashable (PDict d) = Some ''dict''"
| "unhashable (PTuple xs) = unhashable_list xs"
| "unhashable PNone = None"
| "unhashable (PBool b) = None"
| "unhashable (PInt i) = None"
| "unhashable (PFloat w) = None"
| "unhashable (PStr s) = None"
| "unhashable (PBytes s) = None"
| "unhashable_list [] = None"
| "unhashable_list (x # xs) = (case unhashable x of Some t \<Rightarrow> Some t | None \<Rightarrow> unhashable_list xs)"

section \<open>Message protocol (\<open>MCPMessage\<close>, \<open>MCPRouter\<close>)\<close>

text \<open>
  The fields of a message have the types the dataclass annotates. The constructor takes
  the reading of the clock as its first argument: \<open>__post_init__\<close> stores it when no
  timestamp was given.
\<close>

record mcp_message =
  sender :: string
  receiver :: string
  msg_type :: string
  trace_id :: string
  payload :: pydict
  timestamp :: "string option"

definition MCPMessage ::
  "string \<Rightarrow> string \<Rightarrow> string \<Rightarrow> string \<Rightarrow> string \<Rightarrow> pydict \<Rightarrow> string option \<Rightarrow> mcp_message" where
  "MCPMessage now s r t tr p ts =
     \<lparr>sender = s, receiver = r, msg_type = t, trace_id = tr, payload = p,
      timestamp = (case ts of None \<Rightarrow> Some now | Some x \<Rightarrow> Some x)\<rparr>"

text \<open>Errors are propagated through \<open>sum_bind\<close>: the first one ends the computation.\<close>

definition sum_bind :: "'e + 'a \<Rightarrow> ('a \<Rightarrow> 'e + 'b) \<Rightarrow> 'e + 'b" where
  "sum_bind x f = (case x of Inl e \<Rightarrow> Inl e | Inr a \<Rightarrow> f a)"

text \<open>
  The limits of the interpreter that the conversions meet. \<open>dataclasses.asdict\<close>, the
  encoder and the decoder of \<open>json\<close> walk a nested object by recursion and raise
  \<open>RecursionError\<close> when the recursion limit is reached: \<open>asdict_depth\<close>, \<open>encoder_depth\<close>
  and \<open>decoder_depth\<close> are the numbers of nested containers each of them can enter at the
  point of the call (they depend on the recursion limit and on the depth of the call
  stack, so they are parameters). \<open>int_max_str_digits\<close> is
  \<open>sys.get_int_max_str_digits()\<close>, 4300 unless it was changed: an integer with more
  decimal digits is not converted to or from text, \<open>ValueError\<close> is raised; 0 switches the
  limit off. The messages of these two exceptions are abbreviated.
\<close>

record py_limits =
  asdict_depth :: nat
  encoder_depth :: nat
  decoder_depth :: nat
  int_max_str_digits :: nat

definition recursion_error :: pyexn where
  "recursion_error = Raised ''RecursionError'' ''maximum recursion depth exceeded''"

definition int_str_error :: pyexn where
  "int_str_error = Raised ''ValueError'' ''Exceeds the limit for integer string conversion''"

text \<open>
  \<open>asdict\<close> copies the fields of the dataclass; lists, tuples and dictionaries are rebuilt
  element by element, by recursion, every other object is copied as it is.
\<close>

fun asdict_inner :: "nat \<Rightarrow> pyval \<Rightarrow> pyexn + pyval"
  and asdict_list :: "nat \<Rightarrow> pyval list \<Rightarrow> pyexn + pyval list"
  and asdict_items :: "nat \<Rightarrow> (pykey \<times> pyval) list \<Rightarrow> pyexn + (pykey \<times> pyval) list" where
  "asdict_inner d PNone = Inr PNone"
| "asdict_inner d (PBool b) = Inr (PBool b)"
| "asdict_inner d (PInt i) = Inr (PInt i)"
| "asdict_inner d (PFloat w) = Inr (PFloat w)"
| "asdict_inner d (PStr s) = Inr (PStr s)"
| "asdict_inner d (PBytes b) = Inr (PBytes b)"
| "asdict_inner d (PList xs) =
     (if d = 0 then Inl recursion_error
      else sum_bind (asdict_list (d - 1) xs) (\<lambda>ys. Inr (PList ys)))"
| "asdict_inner d (PTuple xs) =
     (if d = 0 then Inl recursion_error
      else sum_bind (asdict_list (d - 1) xs) (\<lambda>ys. Inr (PTuple ys)))"
| "asdict_inner d (PDict p) =
     (if d = 0 then Inl recursion_error
      else sum_bind (asdict_items (d - 1) p) (\<lambda>q. Inr (PDict q)))"
| "asdict_list d [] = Inr []"
| "asdict_list d (x # xs) =
     sum_bind (asdict_inner d x) (\<lambda>y. sum_bind (asdict_list d xs) (\<lambda>ys. Inr (y # ys)))"
| "asdict_items d [] = Inr []"
| "asdict_items d ((k, v) # p) =
     sum_bind (asdict_inner d v) (\<lambda>y. sum_bind (asdict_items d p) (\<lambda>q. Inr ((k, y) # q)))"

definition to_dict :: "py_limits \<Rightarrow> mcp_message \<Rightarrow> pyexn + pyval" where
  "to_dict lim m =
     sum_bind (asdict_inner (asdict_depth lim) (PDict (payload m))) (\<lambda>p.
       Inr (PDict
         [(KStr ''sender'', PStr (sender m)),
          (KStr ''receiver'', PStr (receiver m)),
          (KStr ''type'', PStr (msg_type m)),
          (KStr ''trace_id'', PStr (trace_id m)),
          (KStr ''payload'', p),
          (KStr ''timestamp'', (case timestamp m of None \<Rightarrow> PNone | Some ts \<Rightarrow> PStr ts))]))"

text \<open>
  \<open>cls(**data)\<close>. A keyword that is no field, or a missing field other than the timestamp,
  is a \<open>TypeError\<close>. Python does not check the types of the values; a value that does not
  have the annotated type gives a message outside this model, reported as \<open>IllTyped\<close>.
\<close>

definition str_field :: "pydict \<Rightarrow> string \<Rightarrow> pyexn + string" where
  "str_field d k =
     (case map_of d (KStr k) of
        None \<Rightarrow> Inl (Raised ''TypeError'' (''missing required argument: '' @ k))
      | Some (PStr s) \<Rightarrow> Inr s
      | Some v \<Rightarrow> Inl (Raised ''IllTyped'' k))"

definition dict_field :: "pydict \<Rightarrow> string \<Rightarrow> pyexn + pydict" where
  "dict_field d k =
     (case map_of d (KStr k) of
        None \<Rightarrow> Inl (Raised ''TypeError'' (''missing required argument: '' @ k))
      | Some (PDict p) \<Rightarrow> Inr p
      | Some v \<Rightarrow> Inl (Raised ''IllTyped'' k))"

definition opt_str_field :: "pydict \<Rightarrow> string \<Rightarrow> pyexn + string option" where
  "opt_str_field d k =
     (case map_of d (KStr k) of
        None \<Rightarrow> Inr None
      | Some PNone \<Rightarrow> Inr None
      | Some (PStr s) \<Rightarrow> Inr (Some s)
      | Some v \<Rightarrow> Inl (Raised ''IllTyped'' k))"

definition message_fields :: "pykey list" where
  "message_fields =
     [KStr ''sender'', KStr ''receiver'', KStr ''type'', KStr ''trace_id'', KStr ''payload'',
      KStr ''timestamp'']"

definition from_dict :: "string \<Rightarrow> pyval \<Rightarrow> pyexn + mcp_message" where
  "from_dict now data =
     (case data of
        PDict d \<Rightarrow>
          if \<not> list_all (\<lambda>(k, v). k \<in> set message_fields) d then
            Inl (Raised ''TypeError'' ''unexpected keyword argument'')
          else
            sum_bind (str_field d ''sender'') (\<lambda>s.
            sum_bind (str_field d ''receiver'') (\<lambda>r.
            sum_bind (str_field d ''type'') (\<lambda>t.
            sum_bind (str_field d ''trace_id'') (\<lambda>tr.
            sum_bind (dict_field d ''payload'') (\<lambda>p.
            sum_bind (opt_str_field d ''timestamp'') (\<lambda>ts.
              Inr (MCPMessage now s r t tr p ts)))))))
      | _ \<Rightarrow> Inl (Raised ''TypeError'' ''argument after ** must be a mapping''))"

subsection \<open>The textual form\<close>

text \<open>
  The text \<open>json.dumps\<close> writes is represented by the JSON document it denotes: white space
  and the escapes of strings are not modelled. \<open>json_dumps\<close> follows the conversion table
  of the encoder: a tuple is written as an array, an integer key as the string of its
  decimal digits, every \<open>NaN\<close> as the token \<open>NaN\<close>, and \<open>bytes\<close> are refused. \<open>json_loads\<close>
  builds the object the decoder builds: an array is a list, and the members of an object
  are stored into a dictionary one after the other. Both walk the document from left to
  right with the number of containers they can still enter, and stop at the first
  exception.
\<close>

datatype json =
    JNull
  | JBool bool
  | JInt int
  | JFloat "64 word"
  | JStr string
  | JArr "json list"
  | JObj "(string \<times> json) list"

function dec_of_nat :: "nat \<Rightarrow> string" where
  "dec_of_nat n =
     (if n < 10 then [char_of (48 + n)] else dec_of_nat (n div 10) @ [char_of (48 + n mod 10)])"
  by pat_completeness auto
termination
  by (relation "measure id") auto

definition dec_of_int :: "int \<Rightarrow> string" where
  "dec_of_int i = (if i < 0 then CHR ''-'' # dec_of_nat (nat (- i)) else dec_of_nat (nat i))"

definition is_nan :: "64 word \<Rightarrow> bool" where
  "is_nan w = (take_bit 11 (drop_bit 52 w) = 2047 \<and> take_bit 52 w \<noteq> 0)"

definition nan_token :: "64 word" where
  "nan_token = 0x7FF8000000000000"

text \<open>Whether the interpreter converts the integer to and from its decimal digits.\<close>

definition int_str_ok :: "py_limits \<Rightarrow> int \<Rightarrow> bool" where
  "int_str_ok lim i =
     (int_max_str_digits lim = 0 \<or> length (dec_of_nat (nat \<bar>i\<bar>)) \<le> int_max_str_digits lim)"

definition json_key :: "py_limits \<Rightarrow> pykey \<Rightarrow> pyexn + string" where
  "json_key lim k =
     (case k of
        KStr s \<Rightarrow> Inr s
      | KInt i \<Rightarrow> if int_str_ok lim i then Inr (dec_of_int i) else Inl int_str_error)"

fun json_dumps :: "py_limits \<Rightarrow> nat \<Rightarrow> pyval \<Rightarrow> pyexn + json"
  and json_dumps_list :: "py_limits \<Rightarrow> nat \<Rightarrow> pyval list \<Rightarrow> pyexn + json list"
  and json_dumps_items ::
    "py_limits \<Rightarrow> nat \<Rightarrow> (pykey \<times> pyval) list \<Rightarrow> pyexn + (string \<times> json) list" where
  "json_dumps lim d PNone = Inr JNull"
| "json_dumps lim d (PBool b) = Inr (JBool b)"
| "json_dumps lim d (PInt i) = (if int_str_ok lim i then Inr (JInt i) else Inl int_str_error)"
| "json_dumps lim d (PFloat w) = Inr (JFloat (if is_nan w then nan_token else w))"
| "json_dumps lim d (PStr s) = Inr (JStr s)"
| "json_dumps lim d (PBytes b) =
     Inl (Raised ''TypeError'' ''Object of type bytes is not JSON serializable'')"
| "json_dumps lim d (PList xs) =
     (if d = 0 then Inl recursion_error
      else sum_bind (json_dumps_list lim (d - 1) xs) (\<lambda>js. Inr (JArr js)))"
| "json_dumps lim d (PTuple xs) =
     (if d = 0 then Inl recursion_error
      else sum_bind (json_dumps_list lim (d - 1) xs) (\<lambda>js. Inr (JArr js)))"
| "json_dumps lim d (PDict p) =
     (if d = 0 then Inl recursion_error
      else sum_bind (json_dumps_items lim (d - 1) p) (\<lambda>js. Inr (JObj js)))"
| "json_dumps_list lim d [] = Inr []"
| "json_dumps_list lim d (x # xs) =
     sum_bind (json_dumps lim d x) (\<lambda>j.
       sum_bind (json_dumps_list lim d xs) (\<lambda>js. Inr (j # js)))"
| "json_dumps_items lim d [] = Inr []"
| "json_dumps_items lim d ((k, v) # p) =
     sum_bind (json_key lim k) (\<lambda>s.
       sum_bind (json_dumps lim d v) (\<lambda>j.
         sum_bind (json_dumps_items lim d p) (\<lambda>js. Inr ((s, j) # js))))"

fun json_loads :: "py_limits \<Rightarrow> nat \<Rightarrow> json \<Rightarrow> pyexn + pyval"
  and json_loads_list :: "py_limits \<Rightarrow> nat \<Rightarrow> json list \<Rightarrow> pyexn + pyval list"
  and json_loads_items ::
    "py_limits \<Rightarrow> nat \<Rightarrow> (string \<times> json) list \<Rightarrow> pyexn + (pykey \<times> pyval) list" where
  "json_loads lim d JNull = Inr PNone"
| "json_loads lim d (JBool b) = Inr (PBool b)"
| "json_loads lim d (JInt i) = (if int_str_ok lim i then Inr (PInt i) else Inl int_str_error)"
| "json_loads lim d (JFloat w) = Inr (PFloat w)"
| "json_loads lim d (JStr s) = Inr (PStr s)"
| "json_loads lim d (JArr js) =
     (if d = 0 then Inl recursion_error
      else sum_bind (json_loads_list lim (d - 1) js) (\<lambda>xs. Inr (PList xs)))"
| "json_loads lim d (JObj ms) =
     (if d = 0 then Inl recursion_error
      else sum_bind (json_loads_items lim (d - 1) ms) (\<lambda>p. Inr (PDict (dict_merge [] p))))"
| "json_loads_list lim d [] = Inr []"
| "json_loads_list lim d (j # js) =
     sum_bind (json_loads lim d j) (\<lambda>x.
       sum_bind (json_loads_list lim d js) (\<lambda>xs. Inr (x # xs)))"
| "json_loads_items lim d [] = Inr []"
| "json_loads_items lim d ((k, j) # ms) =
     sum_bind (json_loads lim d j) (\<lambda>x.
       sum_bind (json_loads_items lim d ms) (\<lambda>p. Inr ((KStr k, x) # p)))"

definition to_json :: "py_limits \<Rightarrow> mcp_message \<Rightarrow> pyexn + json" where
  "to_json lim m = sum_bind (to_dict lim m) (json_dumps lim (encoder_depth lim))"

definition from_json :: "py_limits \<Rightarrow> string \<Rightarrow> json \<Rightarrow> pyexn + mcp_message" where
  "from_json lim now js = sum_bind (json_loads lim (decoder_depth lim) js) (from_dict now)"

text \<open>
  The objects that JSON has a form of their own for and that the interpreter converts
  within its limits: \<open>None\<close>, booleans, integers of no more decimal digits than the limit,
  floats other than \<open>NaN\<close> (which is not equal to itself), strings, lists, and dictionaries
  whose keys are strings; containers nested at most \<open>d\<close> deep. The keys of a dictionary
  are distinct.
\<close>

fun json_native :: "py_limits \<Rightarrow> nat \<Rightarrow> pyval \<Rightarrow> bool"
  and json_native_list :: "py_limits \<Rightarrow> nat \<Rightarrow> pyval list \<Rightarrow> bool"
  and json_native_items :: "py_limits \<Rightarrow> nat \<Rightarrow> (pykey \<times> pyval) list \<Rightarrow> bool" where
  "json_native lim d PNone = True"
| "json_native lim d (PBool b) = True"
| "json_native lim d (PInt i) = int_str_ok lim i"
| "json_native lim d (PFloat w) = (\<not> is_nan w)"
| "json_native lim d (PStr s) = True"
| "json_native lim d (PBytes b) = False"
| "json_native lim d (PList xs) = (0 < d \<and> json_native_list lim (d - 1) xs)"
| "json_native lim d (PTuple xs) = False"
| "json_native lim d (PDict p) =
     (0 < d \<and> json_native_items lim (d - 1) p \<and> distinct (map fst p))"
| "json_native_list lim d [] = True"
| "json_native_list lim d (x # xs) = (json_native lim d x \<and> json_native_list lim d xs)"
| "json_native_items lim d [] = True"
| "json_native_items lim d ((k, v) # p) =
     ((case k of KStr s \<Rightarrow> True | KInt i \<Rightarrow> False) \<and> json_native lim d v \<and>
      json_native_items lim d p)"

text \<open>The limits of an interpreter with the default settings, for the examples.\<close>

definition demo_limits :: py_limits where
  "demo_limits =
     \<lparr>asdict_depth = 300, encoder_depth = 900, decoder_depth = 900,
      int_max_str_digits = 4300\<rparr>"

subsection \<open>Router and the helper constructors\<close>

record mcp_router =
  message_history :: "mcp_message list"
  trace_sessions :: "(string \<times> mcp_message list) list"

definition new_router :: mcp_router where
  "new_router = \<lparr>message_history = [], trace_sessions = []\<rparr>"

definition route_message :: "mcp_router \<Rightarrow> mcp_message \<Rightarrow> mcp_router" where
  "route_message r m =
     (let sessions =
            (case map_of (trace_sessions r) (trace_id m) of
               None \<Rightarrow> dict_set (trace_sessions r) (trace_id m) []
             | Some ms \<Rightarrow> trace_sessions r)
      in \<lparr>message_history = message_history r @ [m],
          trace_sessions =
            dict_set sessions (trace_id m)
              ((case map_of sessions (trace_id m) of None \<Rightarrow> [] | Some ms \<Rightarrow> ms) @ [m])\<rparr>)"

definition get_trace_history :: "mcp_router \<Rightarrow> string \<Rightarrow> mcp_message list" where
  "get_trace_history r tr = (case map_of (trace_sessions r) tr of None \<Rightarrow> [] | Some ms \<Rightarrow> ms)"

definition clear_history :: "mcp_router \<Rightarrow> mcp_router" where
  "clear_history r = \<lparr>message_history = [], trace_sessions = []\<rparr>"

text \<open>A message built without a timestamp reads the clock once.\<close>

definition new_message ::
  "libs \<Rightarrow> world \<Rightarrow> string \<Rightarrow> string \<Rightarrow> string \<Rightarrow> string \<Rightarrow> pydict \<Rightarrow> mcp_message \<times> world" where
  "new_message L w s r t tr p =
     (MCPMessage (now_iso L (clock_reads w)) s r t tr p None,
      w\<lparr>clock_reads := Suc (clock_reads w)\<rparr>)"

definition create_response_message ::
  "libs \<Rightarrow> world \<Rightarrow> mcp_message \<Rightarrow> string \<Rightarrow> string \<Rightarrow> pydict \<Rightarrow> mcp_message \<times> world" where
  "create_response_message L w original_message sender_name message_type p =
     new_message L w sender_name (sender original_message) message_type
       (trace_id original_message) p"

definition create_error_message ::
  "libs \<Rightarrow> world \<Rightarrow> mcp_message \<Rightarrow> string \<Rightarrow> string \<Rightarrow> mcp_message \<times> world" where
  "create_error_message L w original_message sender_name err =
     create_response_message L w original_message sender_name ''ERROR''
       [(KStr ''error'', PStr err), (KStr ''original_type'', PStr (msg_type original_message))]"

section \<open>Vector Index (\<open>VectorStore\<close>)\<close>

text \<open>
  \<open>index_rows\<close> are the rows of the FAISS index in the order they were added
  (\<open>index.ntotal\<close> is their number), \<open>dimension\<close> its width. \<open>metadata_store\<close> maps an
  identifier to the address of the metadata dictionary the caller handed in: Python stores
  the reference, not a copy. Identifiers are compared as values of \<open>pyval\<close>.
\<close>

record vector_store =
  dimension :: nat
  index_rows :: "vec list"
  metadata_store :: "(pyval \<times> addr) list"
  id_to_index :: "(pyval \<times> int) list"
  index_to_id :: "(int \<times> pyval) list"
  next_index :: int

definition new_vector_store :: "nat \<Rightarrow> vector_store" where
  "new_vector_store d =
     \<lparr>dimension = d, index_rows = [], metadata_store = [], id_to_index = [],
      index_to_id = [], next_index = 0\<rparr>"

text \<open>
  \<open>add_vector\<close> returns the exception it raises, if any, and the store it leaves. The
  index refuses a row of another width before anything is changed; an identifier that
  cannot be a dictionary key fails at the first mapping, after the row was added.
\<close>

definition add_vector ::
  "libs \<Rightarrow> vector_store \<Rightarrow> pyval \<Rightarrow> vec \<Rightarrow> addr \<Rightarrow> pyexn option \<times> vector_store" where
  "add_vector L vs vector_id embedding metadata =
     (let embedding = (if norm_positive L embedding then div_by_norm L embedding else embedding)
      in if length embedding \<noteq> dimension vs then
           (Some (Raised ''Exception'' (''Failed to add vector '' @ py_str L vector_id @ '': '')), vs)
         else
           let vs1 = vs\<lparr>index_rows := index_rows vs @ [embedding]\<rparr>;
               current_index = next_index vs
           in case unhashable vector_id of
                Some t \<Rightarrow>
                  (Some (Raised ''Exception''
                     (''Failed to add vector '' @ py_str L vector_id @ '': unhashable type: '' @
                      [CHR 0x27] @ t @ [CHR 0x27])), vs1)
              | None \<Rightarrow>
                  (None,
                   vs1\<lparr>id_to_index := dict_set (id_to_index vs) vector_id current_index,
                       index_to_id := dict_set (index_to_id vs) current_index vector_id,
                       metadata_store := dict_set (metadata_store vs) vector_id metadata,
                       next_index := next_index vs + 1\<rparr>))"

text \<open>
  \<open>search\<close>. The number of neighbours asked of the index is \<open>min(top_k, ntotal)\<close>; for a
  \<open>top_k\<close> that is no integer the parameter \<open>faiss_search\<close> receives it as it is and
  answers for \<open>min\<close> as well. A hit whose row number has no identifier is dropped.
\<close>

definition clip_top_k :: "pyval \<Rightarrow> nat \<Rightarrow> pyval" where
  "clip_top_k top_k ntotal = (case top_k of PInt k \<Rightarrow> PInt (min k (int ntotal)) | _ \<Rightarrow> top_k)"

definition search ::
  "libs \<Rightarrow> vector_store \<Rightarrow> vec \<Rightarrow> pyval \<Rightarrow> pyexn + (pyval \<times> 64 word) list" where
  "search L vs query_embedding top_k =
     (if index_rows vs = [] then Inr []
      else
        let query_embedding =
              (if norm_positive L query_embedding then div_by_norm L query_embedding
               else query_embedding)
        in case faiss_search L (index_rows vs) query_embedding
                  (clip_top_k top_k (length (index_rows vs))) of
             Inl e \<Rightarrow> Inl (Raised ''Exception'' (''Vector search failed: '' @ exn_str e))
           | Inr hits \<Rightarrow>
               Inr (concat (map (\<lambda>(similarity, idx).
                      case map_of (index_to_id vs) idx of
                        None \<Rightarrow> []
                      | Some vector_id \<Rightarrow> [(vector_id, f32_to_float L similarity)]) hits)))"

definition get_metadata :: "vector_store \<Rightarrow> pyval \<Rightarrow> addr option" where
  "get_metadata vs vector_id = map_of (metadata_store vs) vector_id"

definition get_vector_count :: "vector_store \<Rightarrow> nat" where
  "get_vector_count vs = length (index_rows vs)"

text \<open>
  \<open>remove_vector\<close> writes \<open>deleted = True\<close> into the dictionary object the identifier
  refers to, and touches nothing else.
\<close>

definition remove_vector ::
  "(addr \<Rightarrow> pydict) \<Rightarrow> vector_store \<Rightarrow> pyval \<Rightarrow> bool \<times> (addr \<Rightarrow> pydict) \<times> vector_store" where
  "remove_vector h vs vector_id =
     (case map_of (metadata_store vs) vector_id of
        Some a \<Rightarrow> (True, h(a := dict_set (h a) (KStr ''deleted'') (PBool True)), vs)
      | None \<Rightarrow> (False, h, vs))"

definition clear_store :: "vector_store \<Rightarrow> vector_store" where
  "clear_store vs =
     vs\<lparr>index_rows := [], metadata_store := [], id_to_index := [], index_to_id := [],
        next_index := 0\<rparr>"

definition is_active :: "(addr \<Rightarrow> pydict) \<Rightarrow> addr \<Rightarrow> bool" where
  "is_active h a = (\<not> truthy (dict_get_default (h a) ''deleted'' (PBool False)))"

definition active_vectors :: "(addr \<Rightarrow> pydict) \<Rightarrow> vector_store \<Rightarrow> nat" where
  "active_vectors h vs = length (filter (is_active h) (map snd (metadata_store vs)))"

definition get_statistics :: "(addr \<Rightarrow> pydict) \<Rightarrow> vector_store \<Rightarrow> pydict" where
  "get_statistics h vs =
     [(KStr ''total_vectors'', PInt (int (length (index_rows vs)))),
      (KStr ''active_vectors'', PInt (int (active_vectors h vs))),
      (KStr ''deleted_vectors'',
         PInt (int (length (index_rows vs)) - int (active_vectors h vs))),
      (KStr ''dimension'', PInt (int (dimension vs))),
      (KStr ''index_type'', PStr ''IndexFlatIP'')]"

text \<open>
  The identifiers of \<open>metadata_store\<close> are the keys of a dictionary: no identifier occurs
  twice. The empty store has the property and \<open>add_vector\<close> keeps it.
\<close>

definition store_ok :: "vector_store \<Rightarrow> bool" where
  "store_ok vs = distinct (map fst (metadata_store vs))"

text \<open>
  The metadata of an identifier is unshared when no other identifier of the store refers
  to the same dictionary object.
\<close>

definition unshared :: "vector_store \<Rightarrow> pyval \<Rightarrow> bool" where
  "unshared vs vector_id =
     (case map_of (metadata_store vs) vector_id of
        None \<Rightarrow> True
      | Some a \<Rightarrow> list_all (\<lambda>(k, b). k = vector_id \<or> b \<noteq> a) (metadata_store vs))"

text \<open>Library parameters for the examples; the numeric functions are placeholders.\<close>

definition demo_libs :: libs where
  "demo_libs =
     \<lparr>py_repr = (\<lambda>v. type_name v),
      now_iso = (\<lambda>n. ''2025-01-01T00:00:0'' @ [char_of (48 + n mod 10)]),
      uuid4 = uuid_seq,
      re_word = (\<lambda>c. \<not> is_space c),
      tfidf_fit = (\<lambda>corpus. None),
      tfidf_transform = (\<lambda>corpus t. Inr [1]),
      random_vec = (\<lambda>n. replicate 1000 0),
      norm_positive = (\<lambda>e. \<exists>x\<in>set e. x \<noteq> 0),
      div_by_norm = (\<lambda>e. e),
      faiss_search = (\<lambda>rows q k. Inr (map (\<lambda>i. (0, int i)) [0 ..< length rows])),
      f32_to_float = (\<lambda>x. 0),
      doc_parse = (\<lambda>content parser_type.
         Inr ((case content of PBytes b \<Rightarrow> b | _ \<Rightarrow> []),
              [(KStr ''metadata'', PDict [(KStr ''parser'', PStr parser_type)])])),
      contextual_response = (\<lambda>q chunks. Inr ''answer'')\<rparr>"

text \<open>
  For the examples: a store of width 1 in which the identifiers \<open>a\<close> and \<open>b\<close> were
  inserted with one and the same metadata dictionary (the object at address 0), and a
  memory in which every dictionary is empty.
\<close>

definition empty_objects :: "addr \<Rightarrow> pydict" where
  "empty_objects a = []"

definition shared_store :: vector_store where
  "shared_store =
     snd (add_vector demo_libs
            (snd (add_vector demo_libs (new_vector_store 1) (PStr ''a'') [0] 0))
            (PStr ''b'') [0] 0)"

definition single_store :: vector_store where
  "single_store = snd (add_vector demo_libs (new_vector_store 1) (PStr ''a'') [0] 0)"

section \<open>Operations on objects of unknown type\<close>

text \<open>
  The payload of a message is untyped: where the program subscripts, iterates, measures or
  unpacks an object taken from a payload, the operation fails on an object of the wrong
  type. (The wording of the interpreter's own error texts varies between versions.)
\<close>

definition quoted :: "string \<Rightarrow> string" where
  "quoted s = [CHR 0x27] @ s @ [CHR 0x27]"

definition py_getitem :: "pyval \<Rightarrow> string \<Rightarrow> pyexn + pyval" where
  "py_getitem obj k =
     (case obj of
        PDict d \<Rightarrow>
          (case map_of d (KStr k) of
             Some v \<Rightarrow> Inr v
           | None \<Rightarrow> Inl (Raised ''KeyError'' (quoted k)))
      | PStr s \<Rightarrow> Inl (Raised ''TypeError'' ''string indices must be integers'')
      | PBytes s \<Rightarrow> Inl (Raised ''TypeError'' ''byte indices must be integers or slices, not str'')
      | PList xs \<Rightarrow> Inl (Raised ''TypeError'' ''list indices must be integers or slices, not str'')
      | PTuple xs \<Rightarrow> Inl (Raised ''TypeError'' ''tuple indices must be integers or slices, not str'')
      | _ \<Rightarrow> Inl (Raised ''TypeError'' (quoted (type_name obj) @ '' object is not subscriptable'')))"

definition py_get_method :: "pyval \<Rightarrow> string \<Rightarrow> pyval \<Rightarrow> pyexn + pyval" where
  "py_get_method obj k dflt =
     (case obj of
        PDict d \<Rightarrow> Inr (dict_get_default d k dflt)
      | _ \<Rightarrow> Inl (Raised ''AttributeError''
                 (quoted (type_name obj) @ '' object has no attribute '' @ quoted ''get'')))"

fun key_val :: "pykey \<Rightarrow> pyval" where
  "key_val (KStr s) = PStr s"
| "key_val (KInt i) = PInt i"

definition py_iter :: "pyval \<Rightarrow> pyexn + pyval list" where
  "py_iter obj =
     (case obj of
        PList xs \<Rightarrow> Inr xs
      | PTuple xs \<Rightarrow> Inr xs
      | PDict d \<Rightarrow> Inr (map (\<lambda>(k, v). key_val k) d)
      | PStr s \<Rightarrow> Inr (map (\<lambda>c. PStr [c]) s)
      | PBytes s \<Rightarrow> Inr (map (\<lambda>c. PInt (of_char c)) s)
      | _ \<Rightarrow> Inl (Raised ''TypeError'' (quoted (type_name obj) @ '' object is not iterable'')))"

definition py_len :: "pyval \<Rightarrow> pyexn + int" where
  "py_len obj =
     (case obj of
        PList xs \<Rightarrow> Inr (int (length xs))
      | PTuple xs \<Rightarrow> Inr (int (length xs))
      | PDict d \<Rightarrow> Inr (int (length d))
      | PStr s \<Rightarrow> Inr (int (length s))
      | PBytes s \<Rightarrow> Inr (int (length s))
      | _ \<Rightarrow> Inl (Raised ''TypeError''
                 (''object of type '' @ quoted (type_name obj) @ '' has no len()'')))"

text \<open>The entries \<open>**obj\<close> unpacks into a dictionary display.\<close>

definition mapping_items :: "pyval \<Rightarrow> pyexn + pydict" where
  "mapping_items obj =
     (case obj of
        PDict d \<Rightarrow> Inr d
      | _ \<Rightarrow> Inl (Raised ''TypeError'' (quoted (type_name obj) @ '' object is not a mapping'')))"

definition py_print :: "world \<Rightarrow> string \<Rightarrow> world" where
  "py_print w line = w\<lparr>stdout := stdout w @ [line]\<rparr>"

text \<open>\<open>str.lower\<close> on the code points below 256, and \<open>str.endswith\<close>.\<close>

definition lower_char :: "char \<Rightarrow> char" where
  "lower_char c =
     (let n = (of_char c :: nat)
      in if (65 \<le> n \<and> n \<le> 90) \<or> (192 \<le> n \<and> n \<le> 222 \<and> n \<noteq> 215) then char_of (n + 32) else c)"

definition py_lower :: "string \<Rightarrow> string" where
  "py_lower s = map lower_char s"

definition ends_with :: "string \<Rightarrow> string \<Rightarrow> bool" where
  "ends_with s suffix =
     (length suffix \<le> length s \<and> drop (length s - length suffix) s = suffix)"

section \<open>Embedding Generator (\<open>LocalEmbeddingGenerator\<close>)\<close>

record embedding_generator =
  corpus :: "string list"
  is_fitted :: bool

definition new_embedding_generator :: embedding_generator where
  "new_embedding_generator = \<lparr>corpus = [], is_fitted = False\<rparr>"

definition embedding_dimension :: nat where
  "embedding_dimension = 1000"

text \<open>\<open>re.sub(r'\s+', ' ', text)\<close>: every maximal run of white space becomes one blank.\<close>

function collapse_spaces :: "string \<Rightarrow> string" where
  "collapse_spaces [] = []"
| "collapse_spaces (c # cs) =
     (if is_space c then CHR '' '' # collapse_spaces (dropWhile is_space cs)
      else c # collapse_spaces cs)"
  by pat_completeness auto
termination
  by (relation "measure length") (auto simp: length_dropWhile_le less_Suc_eq_le)

text \<open>
  \<open>_clean_text\<close>: an object that is no string is replaced by its \<open>str\<close>; then the two
  substitutions, \<open>lower\<close>, \<open>strip\<close> and the cut at 2000 characters.
\<close>

definition clean_text :: "libs \<Rightarrow> pyval \<Rightarrow> string" where
  "clean_text L v =
     (let t0 = py_str L v;
          t1 = collapse_spaces t0;
          t2 = map (\<lambda>c. if re_word L c \<or> is_space c then c else CHR '' '') t1;
          t3 = py_strip (py_lower t2)
      in if length t3 > 2000 then take 2000 t3 @ ''...'' else t3)"

text \<open>
  The \<open>except\<close> branch of \<open>generate_embedding\<close>: the warning is printed and a random vector
  is returned. The text that was appended to the corpus before the failure stays there.
\<close>

definition embedding_fallback :: "libs \<Rightarrow> world \<Rightarrow> pyexn \<Rightarrow> vec \<times> world" where
  "embedding_fallback L w e =
     (random_vec L (rand_calls w),
      (py_print w (''Warning: Failed to generate embedding: '' @ exn_str e))
        \<lparr>rand_calls := Suc (rand_calls w)\<rparr>)"

definition fit_dimension :: "vec \<Rightarrow> vec" where
  "fit_dimension v =
     (if length v < embedding_dimension then v @ replicate (embedding_dimension - length v) 0
      else take embedding_dimension v)"

definition generate_embedding ::
  "libs \<Rightarrow> embedding_generator \<Rightarrow> world \<Rightarrow> pyval \<Rightarrow> vec \<times> embedding_generator \<times> world" where
  "generate_embedding L g w txt =
     (let cleaned_text = clean_text L txt
      in if py_strip cleaned_text = [] then (replicate embedding_dimension 0, g, w)
         else
           let g1 = g\<lparr>corpus := corpus g @ [cleaned_text]\<rparr>
           in case tfidf_fit L (corpus g1) of
                Some e \<Rightarrow> (fst (embedding_fallback L w e), g1, snd (embedding_fallback L w e))
              | None \<Rightarrow>
                  let g2 = g1\<lparr>is_fitted := True\<rparr>
                  in case tfidf_transform L (corpus g2) cleaned_text of
                       Inl e \<Rightarrow>
                         (fst (embedding_fallback L w e), g2, snd (embedding_fallback L w e))
                     | Inr v \<Rightarrow> (fit_dimension v, g2, w))"

section \<open>Ingestion Agent\<close>

record ingestion_agent =
  processed_documents :: "(string \<times> pydict) list"

definition new_ingestion_agent :: ingestion_agent where
  "new_ingestion_agent = \<lparr>processed_documents = []\<rparr>"

text \<open>The parser is chosen from the extension of the file name, and from nothing else.\<close>

definition parser_type_of :: "string \<Rightarrow> string option" where
  "parser_type_of file_name =
     (let n = py_lower file_name
      in if ends_with n ''.pdf'' then Some ''pdf''
         else if ends_with n ''.pptx'' then Some ''pptx''
         else if ends_with n ''.docx'' then Some ''docx''
         else if ends_with n ''.csv'' then Some ''csv''
         else if ends_with n ''.txt'' \<or> ends_with n ''.md'' then Some ''text''
         else None)"

definition no_lower_error :: "pyval \<Rightarrow> pyexn" where
  "no_lower_error v =
     (case v of
        PBytes b \<Rightarrow>
          Raised ''TypeError'' ''endswith first arg must be bytes or a tuple of bytes, not str''
      | _ \<Rightarrow> Raised ''AttributeError''
               (quoted (type_name v) @ '' object has no attribute '' @ quoted ''lower''))"

text \<open>
  \<open>_parse_document\<close> returns the text, the chunks and the metadata (the three entries of
  the dictionary it builds), or raises; either way the identifiers the chunking drew are
  used up. Every exception is raised again as \<open>Failed to parse document ...\<close>.
\<close>

definition parse_failure :: "libs \<Rightarrow> pyval \<Rightarrow> pyexn \<Rightarrow> pyexn" where
  "parse_failure L file_name e =
     Raised ''Exception''
       (''Failed to parse document '' @ py_str L file_name @ '': '' @ exn_str e)"

definition parse_document ::
  "libs \<Rightarrow> world \<Rightarrow> pyval \<Rightarrow> pyval \<Rightarrow> pyval
     \<Rightarrow> (pyexn + string \<times> pyval list \<times> pydict) \<times> world" where
  "parse_document L w file_name file_content file_type =
     (case file_name of
        PStr fname \<Rightarrow>
          (case parser_type_of fname of
             None \<Rightarrow>
               (Inl (parse_failure L file_name
                  (Raised ''ValueError'' (''Unsupported file type: '' @ fname))), w)
           | Some parser_type \<Rightarrow>
               (case doc_parse L file_content parser_type of
                  Inl e \<Rightarrow> (Inl (parse_failure L file_name e), w)
                | Inr (txt, parsed_data) \<Rightarrow>
                    (case chunk_text (\<lambda>k. uuid4 L (uuid_calls w + k)) txt fname 1000 200 of
                       Inl e \<Rightarrow> (Inl (parse_failure L file_name e), w)
                     | Inr chunks \<Rightarrow>
                         let w1 = w\<lparr>uuid_calls := uuid_calls w + length chunks\<rparr>
                         in case mapping_items
                                   (dict_get_default parsed_data ''metadata'' (PDict [])) of
                              Inl e \<Rightarrow> (Inl (parse_failure L file_name e), w1)
                            | Inr parser_metadata \<Rightarrow>
                                (Inr (txt, chunks,
                                   dict_merge
                                     [(KStr ''file_name'', file_name),
                                      (KStr ''file_type'', file_type),
                                      (KStr ''parser_type'', PStr parser_type),
                                      (KStr ''page_count'',
                                         dict_get_default parsed_data ''page_count'' (PInt 1)),
                                      (KStr ''word_count'', PInt (int (length (py_split txt))))]
                                     parser_metadata), w1))))
      | _ \<Rightarrow> (Inl (parse_failure L file_name (no_lower_error file_name)), w))"

text \<open>
  \<open>_process_document\<close>. The validation tests \<open>file_name\<close> and \<open>file_content\<close>; \<open>file_type\<close>
  is read from the payload and stored, and never tested.
\<close>

definition process_document ::
  "libs \<Rightarrow> ingestion_agent \<Rightarrow> world \<Rightarrow> mcp_message \<Rightarrow> mcp_message \<times> ingestion_agent \<times> world" where
  "process_document L ia w message =
     (let file_name = dict_get (payload message) ''file_name'';
          file_content = dict_get (payload message) ''file_content'';
          file_type = dict_get (payload message) ''file_type''
      in if \<not> (truthy file_name \<and> truthy file_content) then
           (fst (create_error_message L w message ''IngestionAgent''
                   ''Missing required fields: file_name or file_content''),
            ia,
            snd (create_error_message L w message ''IngestionAgent''
                   ''Missing required fields: file_name or file_content''))
         else
           case parse_document L w file_name file_content file_type of
             (Inl e, w1) \<Rightarrow>
               (fst (create_error_message L w1 message ''IngestionAgent''
                       (''Document processing failed: '' @ exn_str e)),
                ia,
                snd (create_error_message L w1 message ''IngestionAgent''
                       (''Document processing failed: '' @ exn_str e)))
           | (Inr (txt, chunks, metadata), w1) \<Rightarrow>
               let doc_id = uuid4 L (uuid_calls w1);
                   w2 = w1\<lparr>uuid_calls := Suc (uuid_calls w1)\<rparr>;
                   ia' = ia\<lparr>processed_documents :=
                           dict_set (processed_documents ia) doc_id
                             [(KStr ''id'', PStr doc_id),
                              (KStr ''name'', file_name),
                              (KStr ''type'', file_type),
                              (KStr ''content'', PStr txt),
                              (KStr ''chunks'', PList chunks),
                              (KStr ''metadata'', PDict metadata)]\<rparr>;
                   response = create_response_message L w2 message ''IngestionAgent''
                       ''DOCUMENT_PARSED''
                       [(KStr ''status'', PStr ''success''),
                        (KStr ''document_id'', PStr doc_id),
                        (KStr ''file_name'', file_name),
                        (KStr ''chunks'', PList chunks),
                        (KStr ''metadata'', PDict metadata),
                        (KStr ''total_chunks'', PInt (int (length chunks)))]
               in (fst response, ia', snd response))"

definition entered :: "world \<Rightarrow> string \<Rightarrow> world" where
  "entered w agent = w\<lparr>invoked := invoked w @ [agent]\<rparr>"

definition unsupported_type ::
  "libs \<Rightarrow> world \<Rightarrow> mcp_message \<Rightarrow> string \<Rightarrow> mcp_message \<times> world" where
  "unsupported_type L w message agent =
     create_error_message L w message agent (''Unsupported message type: '' @ msg_type message)"

definition ingestion_handle_message ::
  "libs \<Rightarrow> ingestion_agent \<Rightarrow> world \<Rightarrow> mcp_message \<Rightarrow> mcp_message \<times> ingestion_agent \<times> world" where
  "ingestion_handle_message L ia w0 message =
     (let w = entered w0 ''IngestionAgent''
      in if msg_type message = ''DOCUMENT_UPLOAD'' then process_document L ia w message
         else (fst (unsupported_type L w message ''IngestionAgent''), ia,
               snd (unsupported_type L w message ''IngestionAgent'')))"

definition get_document :: "ingestion_agent \<Rightarrow> string \<Rightarrow> pydict option" where
  "get_document ia doc_id = map_of (processed_documents ia) doc_id"

definition clear_documents :: "ingestion_agent \<Rightarrow> ingestion_agent" where
  "clear_documents ia = ia\<lparr>processed_documents := []\<rparr>"

section \<open>Retrieval Agent\<close>

record retrieval_agent =
  store :: vector_store
  embedder :: embedding_generator
  document_chunks :: "(pyval \<times> pydict) list"

definition new_retrieval_agent :: retrieval_agent where
  "new_retrieval_agent =
     \<lparr>store = new_vector_store 1000, embedder = new_embedding_generator, document_chunks = []\<rparr>"

text \<open>
  The \<open>except\<close> branch inside the loop of \<open>_index_document\<close>: the warning names
  \<open>chunk.get('id', 'unknown')\<close>. For a chunk that is no dictionary this call itself raises,
  and the exception leaves the loop.
\<close>

definition skip_chunk ::
  "libs \<Rightarrow> retrieval_agent \<Rightarrow> world \<Rightarrow> pyval \<Rightarrow> pyexn
     \<Rightarrow> (pyexn + pyval option) \<times> retrieval_agent \<times> world" where
  "skip_chunk L ra w chunk e =
     (case py_get_method chunk ''id'' (PStr ''unknown'') of
        Inl e' \<Rightarrow> (Inl e', ra, w)
      | Inr shown \<Rightarrow>
          (Inr None, ra,
           py_print w (''Warning: Failed to index chunk '' @ py_str L shown @ '': '' @ exn_str e)))"

text \<open>
  The body of the loop, for one chunk: \<open>Inr (Some id)\<close> when the chunk was indexed,
  \<open>Inr None\<close> when it was skipped, \<open>Inl e\<close> when an exception leaves the loop. The
  metadata dictionary is a new object, stored at the first unused address.
\<close>

definition index_chunk ::
  "libs \<Rightarrow> retrieval_agent \<Rightarrow> world \<Rightarrow> pyval \<Rightarrow> pyval \<Rightarrow> pyval \<Rightarrow> pyval
     \<Rightarrow> (pyexn + pyval option) \<times> retrieval_agent \<times> world" where
  "index_chunk L ra w document_id file_name metadata chunk =
     (case py_getitem chunk ''text'' of
        Inl e \<Rightarrow> skip_chunk L ra w chunk e
      | Inr txt \<Rightarrow>
          (case generate_embedding L (embedder ra) w txt of
             (embedding, g1, w1) \<Rightarrow>
               let ra1 = ra\<lparr>embedder := g1\<rparr>
               in case py_getitem chunk ''id'' of
                    Inl e \<Rightarrow> skip_chunk L ra1 w1 chunk e
                  | Inr chunk_id \<Rightarrow>
                      (case sum_bind (mapping_items chunk) (\<lambda>cd.
                              sum_bind (mapping_items metadata) (\<lambda>md. Inr (cd, md))) of
                         Inl e \<Rightarrow> skip_chunk L ra1 w1 chunk e
                       | Inr (cd, md) \<Rightarrow>
                           let owned = dict_set (dict_set cd (KStr ''document_id'') document_id)
                                         (KStr ''document_name'') file_name;
                               a = next_addr w1;
                               w2 = w1\<lparr>objects := (objects w1)(a := dict_merge owned md),
                                       next_addr := Suc a\<rparr>
                           in case add_vector L (store ra1) chunk_id embedding a of
                                (Some e, vs) \<Rightarrow> skip_chunk L (ra1\<lparr>store := vs\<rparr>) w2 chunk e
                              | (None, vs) \<Rightarrow>
                                  (Inr (Some chunk_id),
                                   ra1\<lparr>store := vs,
                                       document_chunks :=
                                         dict_set (document_chunks ra1) chunk_id
                                           (dict_set owned (KStr ''embedding_dims'')
                                              (PInt (int (length embedding))))\<rparr>,
                                   w2))))"

fun index_chunks ::
  "libs \<Rightarrow> retrieval_agent \<Rightarrow> world \<Rightarrow> pyval \<Rightarrow> pyval \<Rightarrow> pyval \<Rightarrow> pyval list \<Rightarrow> pyval list
     \<Rightarrow> (pyexn + pyval list) \<times> retrieval_agent \<times> world" where
  "index_chunks L ra w document_id file_name metadata [] indexed_chunks =
     (Inr indexed_chunks, ra, w)"
| "index_chunks L ra w document_id file_name metadata (chunk # chunks) indexed_chunks =
     (case index_chunk L ra w document_id file_name metadata chunk of
        (Inl e, ra', w') \<Rightarrow> (Inl e, ra', w')
      | (Inr None, ra', w') \<Rightarrow>
          index_chunks L ra' w' document_id file_name metadata chunks indexed_chunks
      | (Inr (Some chunk_id), ra', w') \<Rightarrow>
          index_chunks L ra' w' document_id file_name metadata chunks
            (indexed_chunks @ [chunk_id]))"

definition respond ::
  "mcp_message \<times> world \<Rightarrow> 'a \<Rightarrow> mcp_message \<times> 'a \<times> world" where
  "respond mw agent = (fst mw, agent, snd mw)"

definition index_document ::
  "libs \<Rightarrow> retrieval_agent \<Rightarrow> world \<Rightarrow> mcp_message \<Rightarrow> mcp_message \<times> retrieval_agent \<times> world" where
  "index_document L ra w message =
     (let document_id = dict_get (payload message) ''document_id'';
          file_name = dict_get (payload message) ''file_name'';
          chunks = dict_get_default (payload message) ''chunks'' (PList []);
          metadata = dict_get_default (payload message) ''metadata'' (PDict [])
      in if \<not> truthy chunks then
           respond (create_error_message L w message ''RetrievalAgent''
                      ''No chunks provided for indexing'') ra
         else
           case py_iter chunks of
             Inl e \<Rightarrow>
               respond (create_error_message L w message ''RetrievalAgent''
                          (''Document indexing failed: '' @ exn_str e)) ra
           | Inr cs \<Rightarrow>
               (case index_chunks L ra w document_id file_name metadata cs [] of
                  (Inl e, ra', w') \<Rightarrow>
                    respond (create_error_message L w' message ''RetrievalAgent''
                               (''Document indexing failed: '' @ exn_str e)) ra'
                | (Inr indexed_chunks, ra', w') \<Rightarrow>
                    (case py_len chunks of
                       Inl e \<Rightarrow>
                         respond (create_error_message L w' message ''RetrievalAgent''
                                    (''Document indexing failed: '' @ exn_str e)) ra'
                     | Inr n_submitted \<Rightarrow>
                         respond (create_response_message L w' message ''RetrievalAgent''
                                    ''INGESTION_COMPLETE''
                                    [(KStr ''status'', PStr ''success''),
                                     (KStr ''document_id'', document_id),
                                     (KStr ''file_name'', file_name),
                                     (KStr ''indexed_chunks'', PInt (int (length indexed_chunks))),
                                     (KStr ''total_chunks'', PInt n_submitted)]) ra')))"

text \<open>
  The loop of \<open>_retrieve_context\<close> over the hits: a hit whose identifier is unknown to the
  agent is dropped; a source reference is kept the first time it is seen.
\<close>

fun format_hits ::
  "libs \<Rightarrow> (pyval \<times> pydict) list \<Rightarrow> (pyval \<times> 64 word) list \<Rightarrow> pyval list \<Rightarrow> string list
     \<Rightarrow> pyexn + pyval list \<times> string list" where
  "format_hits L known [] retrieved_chunks sources = Inr (retrieved_chunks, sources)"
| "format_hits L known ((chunk_id, similarity_score) # hits) retrieved_chunks sources =
     (case map_of known chunk_id of
        None \<Rightarrow> format_hits L known hits retrieved_chunks sources
      | Some chunk_data \<Rightarrow>
          (case py_getitem (PDict chunk_data) ''text'' of
             Inl e \<Rightarrow> Inl e
           | Inr txt \<Rightarrow>
               let document_name = dict_get_default chunk_data ''document_name'' (PStr ''Unknown'');
                   chunk_index = dict_get_default chunk_data ''chunk_index'' (PInt 0);
                   source_ref = py_str L document_name @ '' (chunk '' @ py_str L chunk_index @ '')''
               in format_hits L known hits
                    (retrieved_chunks @
                       [PDict [(KStr ''id'', chunk_id),
                               (KStr ''text'', txt),
                               (KStr ''source_file'', document_name),
                               (KStr ''similarity_score'', PFloat similarity_score),
                               (KStr ''chunk_index'', chunk_index)]])
                    (if source_ref \<in> set sources then sources else sources @ [source_ref])))"

definition retrieve_context ::
  "libs \<Rightarrow> retrieval_agent \<Rightarrow> world \<Rightarrow> mcp_message \<Rightarrow> mcp_message \<times> retrieval_agent \<times> world" where
  "retrieve_context L ra w message =
     (let query = dict_get (payload message) ''query'';
          top_k = dict_get_default (payload message) ''top_k'' (PInt 5)
      in if \<not> truthy query then
           respond (create_error_message L w message ''RetrievalAgent''
                      ''No query provided for retrieval'') ra
         else
           case generate_embedding L (embedder ra) w query of
             (query_embedding, g1, w1) \<Rightarrow>
               let ra1 = ra\<lparr>embedder := g1\<rparr>
               in case sum_bind (search L (store ra1) query_embedding top_k)
                         (\<lambda>hits. format_hits L (document_chunks ra1) hits [] []) of
                    Inl e \<Rightarrow>
                      respond (create_error_message L w1 message ''RetrievalAgent''
                                 (''Context retrieval failed: '' @ exn_str e)) ra1
                  | Inr (retrieved_chunks, sources) \<Rightarrow>
                      respond (create_response_message L w1 message ''RetrievalAgent''
                                 ''RETRIEVAL_RESULT''
                                 [(KStr ''status'', PStr ''success''),
                                  (KStr ''query'', query),
                                  (KStr ''retrieved_chunks'', PList retrieved_chunks),
                                  (KStr ''sources'', PList (map PStr sources)),
                                  (KStr ''total_results'', PInt (int (length retrieved_chunks)))])
                        ra1)"

definition retrieval_handle_message ::
  "libs \<Rightarrow> retrieval_agent \<Rightarrow> world \<Rightarrow> mcp_message \<Rightarrow> mcp_message \<times> retrieval_agent \<times> world" where
  "retrieval_handle_message L ra w0 message =
     (let w = entered w0 ''RetrievalAgent''
      in if msg_type message = ''DOCUMENT_PARSED'' then index_document L ra w message
         else if msg_type message = ''RETRIEVAL_REQUEST'' then retrieve_context L ra w message
         else respond (unsupported_type L w message ''RetrievalAgent'') ra)"

definition get_indexed_count :: "retrieval_agent \<Rightarrow> nat" where
  "get_indexed_count ra = length (document_chunks ra)"

definition clear_index :: "retrieval_agent \<Rightarrow> retrieval_agent" where
  "clear_index ra = ra\<lparr>store := clear_store (store ra), document_chunks := []\<rparr>"

section \<open>Response Synthesizer (\<open>LLMResponseAgent\<close>, \<open>LocalLLMGenerator\<close>)\<close>

definition no_context_response :: string where
  "no_context_response =
     ''I don't have enough information in the uploaded documents to answer your question. '' @
     ''Please make sure you've uploaded relevant documents and try asking a more specific question '' @
     ''about the content in those documents.''"

text \<open>
  \<open>generate_response\<close>: the fixed message when there are no chunks; otherwise the composed
  answer, and an apology when composing it raises.
\<close>

definition generate_response :: "libs \<Rightarrow> pyval \<Rightarrow> pyval \<Rightarrow> pyval \<Rightarrow> string" where
  "generate_response L query context_chunks conversation_history =
     (if \<not> truthy context_chunks then no_context_response
      else
        case contextual_response L query context_chunks of
          Inr response \<Rightarrow> response
        | Inl e \<Rightarrow>
            ''I apologize, but I encountered an error while processing your question: '' @
            exn_str e)"

definition llm_generate :: "libs \<Rightarrow> world \<Rightarrow> mcp_message \<Rightarrow> mcp_message \<times> world" where
  "llm_generate L w message =
     (let query = dict_get (payload message) ''query'';
          retrieved_chunks = dict_get_default (payload message) ''retrieved_chunks'' (PList []);
          sources = dict_get_default (payload message) ''sources'' (PList []);
          conversation_history =
            dict_get_default (payload message) ''conversation_history'' (PList [])
      in if \<not> truthy query then
           create_error_message L w message ''LLMResponseAgent''
             ''No query provided for response generation''
         else
           let response = generate_response L query retrieved_chunks conversation_history
           in case py_len retrieved_chunks of
                Inl e \<Rightarrow>
                  create_error_message L w message ''LLMResponseAgent''
                    (''Response generation failed: '' @ exn_str e)
              | Inr n \<Rightarrow>
                  create_response_message L w message ''LLMResponseAgent'' ''LLM_RESPONSE''
                    [(KStr ''status'', PStr ''success''),
                     (KStr ''query'', query),
                     (KStr ''response'', PStr response),
                     (KStr ''sources'', sources),
                     (KStr ''context_chunks_used'', PInt n)])"

definition llm_handle_message :: "libs \<Rightarrow> world \<Rightarrow> mcp_message \<Rightarrow> mcp_message \<times> world" where
  "llm_handle_message L w0 message =
     (let w = entered w0 ''LLMResponseAgent''
      in if msg_type message = ''RETRIEVAL_RESULT'' then llm_generate L w message
         else unsupported_type L w message ''LLMResponseAgent'')"

section \<open>Coordinator\<close>

record coordinator =
  router :: mcp_router
  ingestion :: ingestion_agent
  retrieval :: retrieval_agent

definition new_coordinator :: coordinator where
  "new_coordinator =
     \<lparr>router = new_router, ingestion = new_ingestion_agent, retrieval = new_retrieval_agent\<rparr>"

definition failure_payload :: "libs \<Rightarrow> string \<Rightarrow> mcp_message \<Rightarrow> pydict" where
  "failure_payload L stage response =
     [(KStr ''status'', PStr ''failed''),
      (KStr ''error'', PStr (stage @ '' failed: '' @ py_str L (dict_get (payload response) ''error'')))]"

text \<open>\<open>_handle_document_upload\<close>: ingestion, then indexing; the first error ends the workflow.\<close>

definition handle_document_upload ::
  "libs \<Rightarrow> coordinator \<Rightarrow> world \<Rightarrow> mcp_message \<Rightarrow> mcp_message \<times> coordinator \<times> world" where
  "handle_document_upload L co w message =
     (case ingestion_handle_message L (ingestion co) w message of
        (ingestion_response, ia, w1) \<Rightarrow>
          let co1 = co\<lparr>ingestion := ia, router := route_message (router co) ingestion_response\<rparr>
          in if msg_type ingestion_response = ''ERROR'' then
               respond (create_response_message L w1 message ''CoordinatorAgent'' ''ERROR''
                          (failure_payload L ''Ingestion'' ingestion_response)) co1
             else
               case retrieval_handle_message L (retrieval co1) w1 ingestion_response of
                 (retrieval_response, ra, w2) \<Rightarrow>
                   let co2 = co1\<lparr>retrieval := ra,
                                 router := route_message (router co1) retrieval_response\<rparr>
                   in if msg_type retrieval_response = ''ERROR'' then
                        respond (create_response_message L w2 message ''CoordinatorAgent'' ''ERROR''
                                   (failure_payload L ''Indexing'' retrieval_response)) co2
                      else
                        respond (create_response_message L w2 message ''CoordinatorAgent''
                                   ''SUCCESS''
                                   [(KStr ''status'', PStr ''success''),
                                    (KStr ''document_id'',
                                       dict_get (payload ingestion_response) ''document_id''),
                                    (KStr ''file_name'',
                                       dict_get (payload ingestion_response) ''file_name''),
                                    (KStr ''indexed_chunks'',
                                       dict_get (payload retrieval_response) ''indexed_chunks''),
                                    (KStr ''workflow'', PStr ''document_upload_complete'')]) co2)"

text \<open>
  \<open>_handle_query_request\<close>. \<open>retrieval_request\<close> is the message of step 1 and
  \<open>query_retrieval\<close> the call of the Retrieval Agent on it; the Response Synthesizer is
  called in step 2 only, after the test of the retrieval response.
\<close>

definition retrieval_request :: "libs \<Rightarrow> world \<Rightarrow> mcp_message \<Rightarrow> mcp_message \<times> world" where
  "retrieval_request L w message =
     new_message L w ''CoordinatorAgent'' ''RetrievalAgent'' ''RETRIEVAL_REQUEST''
       (trace_id message)
       [(KStr ''query'', dict_get (payload message) ''query''), (KStr ''top_k'', PInt 5)]"

definition query_retrieval ::
  "libs \<Rightarrow> coordinator \<Rightarrow> world \<Rightarrow> mcp_message \<Rightarrow> mcp_message \<times> retrieval_agent \<times> world" where
  "query_retrieval L co w message =
     retrieval_handle_message L (retrieval co) (snd (retrieval_request L w message))
       (fst (retrieval_request L w message))"

definition handle_query_request ::
  "libs \<Rightarrow> coordinator \<Rightarrow> world \<Rightarrow> mcp_message \<Rightarrow> mcp_message \<times> coordinator \<times> world" where
  "handle_query_request L co w message =
     (let query = dict_get (payload message) ''query'';
          conversation_history =
            dict_get_default (payload message) ''conversation_history'' (PList [])
      in case query_retrieval L co w message of
           (retrieval_response, ra, w2) \<Rightarrow>
             let co1 = co\<lparr>retrieval := ra,
                           router := route_message (router co) retrieval_response\<rparr>
             in if msg_type retrieval_response = ''ERROR'' then
                  respond (create_response_message L w2 message ''CoordinatorAgent'' ''ERROR''
                             (failure_payload L ''Retrieval'' retrieval_response)) co1
                else
                  let llm_message =
                        new_message L w2 ''CoordinatorAgent'' ''LLMResponseAgent''
                          ''RETRIEVAL_RESULT'' (trace_id message)
                          (dict_set (payload retrieval_response) (KStr ''conversation_history'')
                             conversation_history)
                  in case llm_handle_message L (snd llm_message) (fst llm_message) of
                       (llm_response, w4) \<Rightarrow>
                         let co2 = co1\<lparr>router := route_message (router co1) llm_response\<rparr>
                         in if msg_type llm_response = ''ERROR'' then
                              respond (create_response_message L w4 message ''CoordinatorAgent''
                                         ''ERROR''
                                         (failure_payload L ''LLM response'' llm_response)) co2
                            else
                              respond (create_response_message L w4 message ''CoordinatorAgent''
                                         ''SUCCESS''
                                         [(KStr ''status'', PStr ''success''),
                                          (KStr ''query'', query),
                                          (KStr ''response'',
                                             dict_get (payload llm_response) ''response''),
                                          (KStr ''sources'',
                                             dict_get_default (payload llm_response) ''sources''
                                               (PList [])),
                                          (KStr ''context_chunks_used'',
                                             dict_get_default (payload llm_response)
                                               ''context_chunks_used'' (PInt 0)),
                                          (KStr ''workflow'', PStr ''query_processing_complete'')])
                                co2)"

text \<open>
  The entry point. No step of the two workflows raises on a message of this model, so the
  outer \<open>except\<close> branches (\<open>Coordination error\<close>, \<open>... workflow failed\<close>) are never taken
  and the function returns a message for every input.
\<close>

definition coordinator_handle_message ::
  "libs \<Rightarrow> coordinator \<Rightarrow> world \<Rightarrow> mcp_message \<Rightarrow> mcp_message \<times> coordinator \<times> world" where
  "coordinator_handle_message L co0 w message =
     (let co = co0\<lparr>router := route_message (router co0) message\<rparr>
      in if msg_type message = ''DOCUMENT_UPLOAD'' then handle_document_upload L co w message
         else if msg_type message = ''QUERY_REQUEST'' then handle_query_request L co w message
         else respond (unsupported_type L w message ''CoordinatorAgent'') co)"

text \<open>For the examples: a world in which nothing has happened yet.\<close>

definition new_world :: world where
  "new_world =
     \<lparr>clock_reads = 0, uuid_calls = 0, rand_calls = 0, stdout = [], objects = empty_objects,
      next_addr = 0, invoked = []\<rparr>"

section \<open>Indexing a batch: what is counted\<close>


definition is_index_warning :: "string \<Rightarrow> bool" where
  "is_index_warning line = (take 31 line = ''Warning: Failed to index chunk '')"

definition index_warnings :: "world \<Rightarrow> nat" where
  "index_warnings w = length (filter is_index_warning (stdout w))"


section \<open>Chunking: the offsets of the sliding window\<close>

lemma dropWhile_all_iff: "(\<forall>x\<in>set (dropWhile P xs). P x) \<longleftrightarrow> (\<forall>x\<in>set xs. P x)"
  by (induction xs) auto

lemma py_strip_empty_iff: "py_strip s = [] \<longleftrightarrow> (\<forall>c\<in>set s. is_space c)"
  by (simp add: py_strip_def dropWhile_all_iff)

lemma split_from_empty_iff:
  "split_from w s = [] \<longleftrightarrow> w = [] \<and> (\<forall>c\<in>set s. is_space c)"
  by (induction s arbitrary: w) auto

lemma py_split_empty_iff: "py_split s = [] \<longleftrightarrow> (\<forall>c\<in>set s. is_space c)"
  by (simp add: py_split_def split_from_empty_iff)

text \<open>
  The loop, entered at the \<open>k\<close>-th offset with \<open>k\<close> chunks made and no earlier window
  having reached the end, appends the chunks \<open>k, ..., n_chunks - 1\<close>.
\<close>

lemma chunk_loop_closed:
  assumes "length chunks = k" "800 * k < length words"
    "k = 0 \<or> 800 * (k - 1) + 1000 < length words"
  shows "chunk_loop uuid words src 1000 800 (800 * int k) chunks =
     chunks @ map (\<lambda>j. make_chunk uuid words src 1000 (800 * int j) j)
                [k ..< n_chunks (length words)]"
  using assms
proof (induction "n_chunks (length words) - k" arbitrary: k chunks)
  case 0
  then have False unfolding n_chunks_def by (auto split: if_splits)
  then show ?case ..
next
  case (Suc d)
  show ?case
  proof (cases "800 * int k + 1000 \<ge> int (length words)")
    case True
    have K: "n_chunks (length words) = Suc k"
      using True Suc.prems unfolding n_chunks_def by (auto; presburger)
    show ?thesis using True Suc.prems
      by (subst chunk_loop.simps) (simp add: K Let_def)
  next
    case False
    have K: "Suc k < n_chunks (length words)"
      using False Suc.prems unfolding n_chunks_def by (auto; presburger)
    let ?c = "chunks @ [make_chunk uuid words src 1000 (800 * int k) k]"
    have d: "d = n_chunks (length words) - Suc k" using Suc.hyps(2) by simp
    have IH: "chunk_loop uuid words src 1000 800 (800 * int (Suc k)) ?c =
       ?c @ map (\<lambda>j. make_chunk uuid words src 1000 (800 * int j) j)
              [Suc k ..< n_chunks (length words)]"
      using False Suc.prems by (intro Suc.hyps(1)[OF d]) auto
    have step: "chunk_loop uuid words src 1000 800 (800 * int k) chunks =
        chunk_loop uuid words src 1000 800 (800 * int (Suc k)) ?c"
      using False Suc.prems by (subst chunk_loop.simps) (simp add: Let_def algebra_simps)
    have up: "[k ..< n_chunks (length words)] = k # [Suc k ..< n_chunks (length words)]"
      using K by (simp add: upt_conv_Cons)
    show ?thesis unfolding step IH up by simp
  qed
qed

lemma chunk_text_closed:
  assumes "py_split txt \<noteq> []"
  shows "chunk_text uuid txt src 1000 200 =
     Inr (map (\<lambda>j. make_chunk uuid (py_split txt) src 1000 (800 * int j) j)
            [0 ..< n_chunks (length (py_split txt))])"
proof -
  have ne: "py_strip txt \<noteq> []"
    using assms by (simp add: py_strip_empty_iff py_split_empty_iff)
  have "chunk_loop uuid (py_split txt) src 1000 800 (800 * int 0) [] =
      [] @ map (\<lambda>j. make_chunk uuid (py_split txt) src 1000 (800 * int j) j)
            [0 ..< n_chunks (length (py_split txt))]"
    using assms by (intro chunk_loop_closed) auto
  then show ?thesis using ne by (simp add: chunk_text_def Let_def)
qed

lemma chunk_text_blank:
  assumes "py_split txt = []"
  shows "chunk_text uuid txt src chunk_size overlap = Inr []"
  using assms by (simp add: chunk_text_def py_strip_empty_iff py_split_empty_iff)

lemma make_chunk_fields:
  "chunk_field ''start_word'' (make_chunk uuid words src cs i k) = Some (PInt i)"
  "chunk_field ''end_word'' (make_chunk uuid words src cs i k) =
     Some (PInt (min (i + cs) (int (length words))))"
  "chunk_field ''chunk_index'' (make_chunk uuid words src cs i k) = Some (PInt (int k))"
  by (simp_all add: chunk_field_def make_chunk_def Let_def)

lemma n_chunks_pos: "0 < n_chunks n"
  by (simp add: n_chunks_def)

lemma n_chunks_last: "int n \<le> 800 * (int (n_chunks n) - 1) + 1000"
  unfolding n_chunks_def by (auto; presburger)

lemma n_chunks_earlier: "Suc j < n_chunks n \<Longrightarrow> 800 * int j + 1000 < int n"
  unfolding n_chunks_def by (auto split: if_splits; presburger)

lemma n_chunks_2500: "n_chunks 2500 = 3"
  by (simp add: n_chunks_def)

lemma split_from_replicate:
  "split_from [] (concat (replicate n ''w '')) = replicate n ''w''"
  by (induction n) (simp_all add: is_space_def)

lemma py_split_replicate: "py_split (concat (replicate n ''w '')) = replicate n ''w''"
  by (simp add: py_split_def split_from_replicate)

lemma py_split_a_b: "py_split ''a b'' = [''a'', ''b'']"
  by (simp add: py_split_def is_space_def)

text \<open>
  Claim C1, as the code has it. A text of 2500 words, chunked with \<open>chunk_size = 1000\<close> and
  \<open>overlap = 200\<close>, gives exactly three chunks, with \<open>start_word\<close> 0, 800, 1600 and
  \<open>end_word\<close> 1000, 1800, 2500: the window at offset 1600 reaches the end of the text
  (\<open>1600 + 1000 \<ge> 2500\<close>), so the loop breaks before offset 2400.
\<close>

theorem chunk_text_2500_words:
  assumes "length (py_split txt) = 2500"
  shows "\<exists>c0 c1 c2. chunk_text uuid txt src 1000 200 = Inr [c0, c1, c2] \<and>
     map (chunk_field ''start_word'') [c0, c1, c2] =
       [Some (PInt 0), Some (PInt 800), Some (PInt 1600)] \<and>
     map (chunk_field ''end_word'') [c0, c1, c2] =
       [Some (PInt 1000), Some (PInt 1800), Some (PInt 2500)]"
proof -
  have ne: "py_split txt \<noteq> []" using assms by auto
  have up: "[0..<3] = [0, 1, 2]" by (simp add: upt_rec)
  show ?thesis
    unfolding chunk_text_closed[OF ne] assms n_chunks_2500 up
    by (simp add: make_chunk_fields assms)
qed

text \<open>The 2500-word text \<open>w w ... w\<close> satisfies the hypothesis.\<close>

theorem chunk_text_2500_words_witness:
  "length (py_split (concat (replicate 2500 ''w ''))) = 2500 \<and>
   (\<exists>c0 c1 c2.
     chunk_text uuid_seq (concat (replicate 2500 ''w '')) ''doc.txt'' 1000 200 = Inr [c0, c1, c2] \<and>
     map (chunk_field ''start_word'') [c0, c1, c2] =
       [Some (PInt 0), Some (PInt 800), Some (PInt 1600)] \<and>
     map (chunk_field ''end_word'') [c0, c1, c2] =
       [Some (PInt 1000), Some (PInt 1800), Some (PInt 2500)])"
proof -
  have len: "length (py_split (concat (replicate 2500 ''w ''))) = 2500"
    by (simp add: py_split_replicate)
  show ?thesis
    using len chunk_text_2500_words[OF len, of uuid_seq "''doc.txt''"] by blast
qed

text \<open>
  Claim C1 as the specification states it (four chunks, the last one from offset 2400)
  fails on that text: the result has three chunks, not four.
\<close>

theorem chunk_text_2500_words_not_four:
  "length (py_split (concat (replicate 2500 ''w ''))) = 2500 \<and>
   \<not> isl (chunk_text uuid_seq (concat (replicate 2500 ''w '')) ''doc.txt'' 1000 200) \<and>
   length (projr (chunk_text uuid_seq (concat (replicate 2500 ''w '')) ''doc.txt'' 1000 200)) \<noteq> 4 \<and>
   map (chunk_field ''start_word'')
      (projr (chunk_text uuid_seq (concat (replicate 2500 ''w '')) ''doc.txt'' 1000 200)) =
     [Some (PInt 0), Some (PInt 800), Some (PInt 1600)] \<and>
   map (chunk_field ''end_word'')
      (projr (chunk_text uuid_seq (concat (replicate 2500 ''w '')) ''doc.txt'' 1000 200)) =
     [Some (PInt 1000), Some (PInt 1800), Some (PInt 2500)]"
proof -
  let ?T = "concat (replicate 2500 ''w '')"
  have len: "length (py_split ?T) = 2500"
    by (simp add: py_split_replicate)
  have ne: "py_split ?T \<noteq> []" using len by auto
  have up: "[0..<3] = [0, 1, 2]" by (simp add: upt_rec)
  show ?thesis
    unfolding chunk_text_closed[OF ne] len n_chunks_2500 up
    by (simp add: make_chunk_fields len)
qed

text \<open>
  Claim C2. For every text, chunking with the default window returns a list of chunks
  (it never fails); the list is empty when the text is empty or white space only; otherwise
  it is not empty, the chunk number \<open>j\<close> (counting from 0) has \<open>start_word = 800 * j\<close>,
  \<open>end_word = min (800 * j + 1000) total_words\<close> and \<open>chunk_index = j\<close>, every chunk but
  the last starts at an offset \<open>i\<close> with \<open>i + 1000 < total_words\<close>, and the last one at
  an offset with \<open>i + 1000 \<ge> total_words\<close>.
\<close>

theorem chunk_text_offsets:
  "\<exists>cs. chunk_text uuid txt src 1000 200 = Inr cs \<and>
     ((\<forall>c\<in>set txt. is_space c) \<longrightarrow> cs = []) \<and>
     (\<not> (\<forall>c\<in>set txt. is_space c) \<longrightarrow>
        cs \<noteq> [] \<and> int (length (py_split txt)) \<le> 800 * (int (length cs) - 1) + 1000) \<and>
     (\<forall>j<length cs.
        chunk_field ''start_word'' (cs ! j) = Some (PInt (800 * int j)) \<and>
        chunk_field ''end_word'' (cs ! j) =
          Some (PInt (min (800 * int j + 1000) (int (length (py_split txt))))) \<and>
        chunk_field ''chunk_index'' (cs ! j) = Some (PInt (int j)) \<and>
        (Suc j < length cs \<longrightarrow> 800 * int j + 1000 < int (length (py_split txt))))"
proof (cases "py_split txt = []")
  case True
  then show ?thesis
    by (simp add: chunk_text_blank py_split_empty_iff)
next
  case False
  let ?n = "length (py_split txt)"
  let ?cs = "map (\<lambda>j. make_chunk uuid (py_split txt) src 1000 (800 * int j) j)
               [0 ..< n_chunks ?n]"
  have eq: "chunk_text uuid txt src 1000 200 = Inr ?cs"
    by (rule chunk_text_closed[OF False])
  have len: "length ?cs = n_chunks ?n" by simp
  have a: "\<not> (\<forall>c\<in>set txt. is_space c)" using False by (simp add: py_split_empty_iff)
  have b: "?cs \<noteq> []" using n_chunks_pos[of ?n] by simp
  have c: "int ?n \<le> 800 * (int (length ?cs) - 1) + 1000"
    unfolding len by (rule n_chunks_last)
  have d: "\<forall>j<length ?cs.
        chunk_field ''start_word'' (?cs ! j) = Some (PInt (800 * int j)) \<and>
        chunk_field ''end_word'' (?cs ! j) = Some (PInt (min (800 * int j + 1000) (int ?n))) \<and>
        chunk_field ''chunk_index'' (?cs ! j) = Some (PInt (int j)) \<and>
        (Suc j < length ?cs \<longrightarrow> 800 * int j + 1000 < int ?n)"
    using n_chunks_earlier[of _ ?n] by (simp add: make_chunk_fields)
  show ?thesis
    unfolding eq using a b c d by blast
qed

text \<open>The two-word text \<open>a b\<close>: one chunk, from word 0 to word 2.\<close>

theorem chunk_text_offsets_witness:
  "\<exists>c. chunk_text uuid_seq ''a b'' ''doc.txt'' 1000 200 = Inr [c] \<and>
     chunk_field ''start_word'' c = Some (PInt 0) \<and>
     chunk_field ''end_word'' c = Some (PInt 2) \<and>
     chunk_field ''chunk_index'' c = Some (PInt 0)"
proof -
  from chunk_text_offsets[of uuid_seq "''a b''" "''doc.txt''"]
  obtain cs where cs: "chunk_text uuid_seq ''a b'' ''doc.txt'' 1000 200 = Inr cs"
    and ne: "\<not> (\<forall>c\<in>set ''a b''. is_space c) \<longrightarrow> cs \<noteq> []"
    and fields: "\<forall>j<length cs.
        chunk_field ''start_word'' (cs ! j) = Some (PInt (800 * int j)) \<and>
        chunk_field ''end_word'' (cs ! j) =
          Some (PInt (min (800 * int j + 1000) (int (length (py_split ''a b''))))) \<and>
        chunk_field ''chunk_index'' (cs ! j) = Some (PInt (int j)) \<and>
        (Suc j < length cs \<longrightarrow> 800 * int j + 1000 < int (length (py_split ''a b'')))"
    by blast
  have "cs \<noteq> []" using ne by (simp add: is_space_def)
  moreover have "\<not> Suc 0 < length cs"
  proof
    assume "Suc 0 < length cs"
    then have "0 < length cs \<and> Suc 0 < length cs" by auto
    with fields have "800 * int 0 + 1000 < int (length (py_split ''a b''))"
      by blast
    then show False by (simp add: py_split_a_b)
  qed
  ultimately have "length cs = 1" by (cases cs) auto
  then obtain c where c: "cs = [c]" by (cases cs) auto
  show ?thesis
    using cs fields unfolding c by (simp add: py_split_a_b)
qed

section \<open>Vector Index: soft delete\<close>

lemma map_of_dict_set: "map_of (dict_set d k v) = (map_of d)(k \<mapsto> v)"
  by (induction d) (auto simp: fun_eq_iff)

lemma dict_set_idem: "dict_set (dict_set d k v) k v = dict_set d k v"
  by (induction d) auto

lemma map_fst_dict_set:
  "map fst (dict_set d k v) = (if k \<in> fst ` set d then map fst d else map fst d @ [k])"
  by (induction d) force+

lemma distinct_dict_set: "distinct (map fst d) \<Longrightarrow> distinct (map fst (dict_set d k v))"
  by (simp add: map_fst_dict_set)

lemma store_ok_new: "store_ok (new_vector_store d)"
  by (simp add: store_ok_def new_vector_store_def)

lemma store_ok_add_vector: "store_ok vs \<Longrightarrow> store_ok (snd (add_vector L vs i e m))"
  by (auto simp: store_ok_def add_vector_def Let_def distinct_dict_set split: option.splits)

lemma add_vector_inserted:
  "fst (add_vector L vs i e m) = None \<Longrightarrow>
     map_of (metadata_store (snd (add_vector L vs i e m))) i = Some m"
  by (auto simp: add_vector_def Let_def map_of_dict_set split: option.splits if_splits)

lemma is_active_flagged:
  "\<not> is_active (h(a := dict_set (h a) (KStr ''deleted'') (PBool True))) a"
  by (simp add: is_active_def dict_get_default_def map_of_dict_set)

lemma is_active_other:
  "b \<noteq> a \<Longrightarrow> is_active (h(a := d)) b = is_active h b"
  by (simp add: is_active_def)

lemma filter_flag_once:
  assumes "count_list xs a = 1" "P a" "\<not> Q a" "\<forall>b. b \<noteq> a \<longrightarrow> Q b = P b"
  shows "Suc (length (filter Q xs)) = length (filter P xs)"
  using assms(1)
proof (induction xs)
  case Nil
  then show ?case by simp
next
  case (Cons x xs)
  show ?case
  proof (cases "x = a")
    case True
    then have "count_list xs a = 0" using Cons.prems by simp
    then have "a \<notin> set xs" by (simp add: count_list_0_iff)
    then have "filter Q xs = filter P xs" using assms(4) by (intro filter_cong) auto
    then show ?thesis using True assms(2,3) by simp
  next
    case False
    then have "count_list xs a = 1" using Cons.prems by simp
    from Cons.IH[OF this] show ?thesis using False assms(4) by simp
  qed
qed

lemma filter_flag_none:
  assumes "\<not> P a"  "\<forall>b. b \<noteq> a \<longrightarrow> Q b = P b" "\<not> Q a"
  shows "filter Q xs = filter P xs"
  using assms by (intro filter_cong) auto

lemma count_unshared:
  assumes "distinct (map fst d)" "map_of d k = Some a" "list_all (\<lambda>(k', b). k' = k \<or> b \<noteq> a) d"
  shows "count_list (map snd d) a = 1"
  using assms
proof (induction d)
  case Nil
  then show ?case by simp
next
  case (Cons p d)
  obtain k' b where p: "p = (k', b)" by (cases p)
  show ?case
  proof (cases "k' = k")
    case True
    then have b: "b = a" using Cons.prems(2) p by simp
    have "k \<notin> fst ` set d" using Cons.prems(1) p True by auto
    then have "a \<notin> set (map snd d)" using Cons.prems(3) by (fastforce simp: list_all_iff)
    then have "count_list (map snd d) a = 0" by (simp only: count_list_0_iff not_False_eq_True)
    then show ?thesis using p b by simp
  next
    case False
    then have "b \<noteq> a" using Cons.prems(3) p by simp
    moreover have "count_list (map snd d) a = 1"
      using Cons.prems False p by (intro Cons.IH) auto
    ultimately show ?thesis using p by simp
  qed
qed

text \<open>
  Claim C5, as the code has it. Let an identifier be in the metadata store, its metadata
  dictionary not flagged deleted and not shared with another identifier of the store.
  Then \<open>remove_vector\<close> returns true; the store itself (the rows of the index, both
  mappings, the metadata references) is unchanged; in memory only the identifier's own
  dictionary changes, and there only the key \<open>deleted\<close>, which becomes \<open>True\<close>; the
  dictionary of every other identifier is what it was; \<open>active_vectors\<close> goes down by
  exactly one and \<open>total_vectors\<close> stays; and every search returns what it returned
  before, so it may still return the identifier.
\<close>

theorem remove_vector_frame:
  assumes "store_ok vs" and "map_of (metadata_store vs) vector_id = Some a"
    and "is_active h a" and "unshared vs vector_id"
  shows "\<exists>h'. remove_vector h vs vector_id = (True, h', vs) \<and>
      map_of (h' a) (KStr ''deleted'') = Some (PBool True) \<and>
      (\<forall>k. k \<noteq> KStr ''deleted'' \<longrightarrow> map_of (h' a) k = map_of (h a) k) \<and>
      (\<forall>b. b \<noteq> a \<longrightarrow> h' b = h b) \<and>
      (\<forall>(k, b)\<in>set (metadata_store vs). k \<noteq> vector_id \<longrightarrow> h' b = h b) \<and>
      Suc (active_vectors h' vs) = active_vectors h vs \<and>
      dict_get (get_statistics h' vs) ''active_vectors'' = PInt (int (active_vectors h vs) - 1) \<and>
      dict_get (get_statistics h' vs) ''total_vectors'' = dict_get (get_statistics h vs) ''total_vectors'' \<and>
      (\<forall>q top_k. search L (snd (snd (remove_vector h vs vector_id))) q top_k = search L vs q top_k)"
proof -
  let ?h = "h(a := dict_set (h a) (KStr ''deleted'') (PBool True))"
  have rm: "remove_vector h vs vector_id = (True, ?h, vs)"
    using assms(2) by (simp add: remove_vector_def)
  have un: "list_all (\<lambda>(k, b). k = vector_id \<or> b \<noteq> a) (metadata_store vs)"
    using assms(2,4) by (simp add: unshared_def)
  have once: "count_list (map snd (metadata_store vs)) a = 1"
    using assms(1,2) un unfolding store_ok_def by (rule count_unshared)
  have nf: "\<not> is_active ?h a" by (rule is_active_flagged)
  have oth: "\<forall>b. b \<noteq> a \<longrightarrow> is_active ?h b = is_active h b"
    by (simp add: is_active_other)
  have act: "Suc (active_vectors ?h vs) = active_vectors h vs"
    unfolding active_vectors_def
    using filter_flag_once[of "map snd (metadata_store vs)" a "is_active h" "is_active ?h"]
      once assms(3) nf oth by blast
  have others: "\<forall>(k, b)\<in>set (metadata_store vs). k \<noteq> vector_id \<longrightarrow> ?h b = h b"
    using un by (auto simp: list_all_iff)
  have act_int: "int (active_vectors ?h vs) = int (active_vectors h vs) - 1"
    using act by linarith
  have st: "dict_get (get_statistics ?h vs) ''active_vectors'' = PInt (int (active_vectors h vs) - 1)"
    by (simp add: get_statistics_def dict_get_def act_int)
  have tot: "dict_get (get_statistics ?h vs) ''total_vectors'' = dict_get (get_statistics h vs) ''total_vectors''"
    by (simp add: get_statistics_def dict_get_def)
  have fl: "map_of (?h a) (KStr ''deleted'') = Some (PBool True)"
    by (simp add: map_of_dict_set)
  have keys: "\<forall>k. k \<noteq> KStr ''deleted'' \<longrightarrow> map_of (?h a) k = map_of (h a) k"
    by (simp add: map_of_dict_set)
  have frame: "\<forall>b. b \<noteq> a \<longrightarrow> ?h b = h b"
    by simp
  have srch: "\<forall>q top_k. search L (snd (snd (remove_vector h vs vector_id))) q top_k = search L vs q top_k"
    by (simp only: rm snd_conv simp_thms)
  show ?thesis
    apply (rule exI[of _ ?h])
    apply (intro conjI)
            apply (rule rm)
           apply (rule fl)
          apply (rule keys)
         apply (rule frame)
        apply (rule others)
       apply (rule act)
      apply (rule st)
     apply (rule tot)
    apply (rule srch)
    done
qed


lemma single_store_eq:
  "single_store = \<lparr>dimension = 1, index_rows = [[0]], metadata_store = [(PStr ''a'', 0)],
      id_to_index = [(PStr ''a'', 0)], index_to_id = [(0, PStr ''a'')], next_index = 1\<rparr>"
  by (simp add: single_store_def add_vector_def new_vector_store_def demo_libs_def Let_def)

lemma shared_store_eq:
  "shared_store = \<lparr>dimension = 1, index_rows = [[0], [0]],
      metadata_store = [(PStr ''a'', 0), (PStr ''b'', 0)],
      id_to_index = [(PStr ''a'', 0), (PStr ''b'', 1)],
      index_to_id = [(0, PStr ''a''), (1, PStr ''b'')], next_index = 2\<rparr>"
  by (simp add: shared_store_def add_vector_def new_vector_store_def demo_libs_def Let_def)

text \<open>The store holding the single identifier \<open>a\<close> satisfies the hypotheses.\<close>

theorem remove_vector_frame_witness:
  "store_ok single_store \<and>
   map_of (metadata_store single_store) (PStr ''a'') = Some 0 \<and>
   is_active empty_objects 0 \<and>
   unshared single_store (PStr ''a'') \<and>
   (\<exists>h'. remove_vector empty_objects single_store (PStr ''a'') = (True, h', single_store) \<and>
      map_of (h' 0) (KStr ''deleted'') = Some (PBool True) \<and>
      Suc (active_vectors h' single_store) = active_vectors empty_objects single_store)"
proof -
  have a: "store_ok single_store"
    by (simp add: single_store_eq store_ok_def)
  have b: "map_of (metadata_store single_store) (PStr ''a'') = Some 0"
    by (simp add: single_store_eq)
  have c: "is_active empty_objects 0"
    by (simp add: is_active_def empty_objects_def dict_get_default_def)
  have d: "unshared single_store (PStr ''a'')"
    by (simp add: single_store_eq unshared_def)
  from remove_vector_frame[OF a b c d, of demo_libs]
  show ?thesis using a b c d by blast
qed

text \<open>
  Claim C5 as the specification states it fails when one dictionary was inserted as the
  metadata of two identifiers: deleting \<open>a\<close> flags the record of \<open>b\<close> as well, and
  \<open>active_vectors\<close> goes from 2 to 0.
\<close>

theorem remove_vector_shared_metadata:
  "map_of (metadata_store shared_store) (PStr ''a'') = Some 0 \<and>
   is_active empty_objects 0 \<and>
   fst (remove_vector empty_objects shared_store (PStr ''a'')) \<and>
   active_vectors empty_objects shared_store = 2 \<and>
   active_vectors (fst (snd (remove_vector empty_objects shared_store (PStr ''a'')))) shared_store = 0 \<and>
   get_metadata shared_store (PStr ''b'') = Some 0 \<and>
   map_of (empty_objects 0) (KStr ''deleted'') = None \<and>
   map_of (fst (snd (remove_vector empty_objects shared_store (PStr ''a''))) 0) (KStr ''deleted'') =
     Some (PBool True)"
  by (simp add: shared_store_eq remove_vector_def active_vectors_def is_active_def
      empty_objects_def dict_get_default_def get_metadata_def)

text \<open>
  Claim C9. \<open>remove_vector\<close> returns true exactly when the identifier is in the metadata
  store, whatever its flag; a second call on the same identifier returns the same answer and
  leaves memory and store as the first call left them, so \<open>active_vectors\<close> does not go
  down again.
\<close>

theorem remove_vector_idempotent:
  "fst (remove_vector h vs vector_id) = (map_of (metadata_store vs) vector_id \<noteq> None) \<and>
   remove_vector (fst (snd (remove_vector h vs vector_id)))
       (snd (snd (remove_vector h vs vector_id))) vector_id = remove_vector h vs vector_id \<and>
   active_vectors (fst (snd (remove_vector (fst (snd (remove_vector h vs vector_id)))
       (snd (snd (remove_vector h vs vector_id))) vector_id))) vs =
     active_vectors (fst (snd (remove_vector h vs vector_id))) vs"
proof (cases "map_of (metadata_store vs) vector_id")
  case None
  then show ?thesis by (simp add: remove_vector_def)
next
  case (Some a)
  then show ?thesis by (simp add: remove_vector_def dict_set_idem)
qed

section \<open>Vector Index: what does not depend on the arithmetic\<close>

text \<open>
  The row \<open>add_vector\<close> stores is the embedding divided by its norm when the library
  finds the norm positive, and the embedding itself otherwise; and \<open>search\<close> returns at
  most one result for each hit of the index, in the order of the hits. What the norm of
  the stored row is, how many hits the index returns and in which order are properties of
  the numeric library and of the index, which are parameters here.
\<close>

lemma add_vector_stored_row:
  "fst (add_vector L vs i e m) = None \<Longrightarrow>
     index_rows (snd (add_vector L vs i e m)) =
       index_rows vs @ [if norm_positive L e then div_by_norm L e else e]"
  by (auto simp: add_vector_def Let_def split: option.splits if_splits)

lemma length_concat_hits:
  "length (concat (map (\<lambda>(s, idx). case map_of m idx of None \<Rightarrow> [] | Some v \<Rightarrow> [(v, f s)]) hits))
     \<le> length hits"
  by (induction hits) (auto split: option.splits)

lemma search_results_bounded:
  assumes "index_rows vs \<noteq> []"
    and "faiss_search L (index_rows vs) (if norm_positive L q then div_by_norm L q else q)
           (clip_top_k k (length (index_rows vs))) = Inr hits"
  shows "\<exists>res. search L vs q k = Inr res \<and> length res \<le> length hits"
  using assms length_concat_hits[where m = "index_to_id vs" and f = "f32_to_float L" and hits = hits]
  by (simp add: search_def Let_def)

section \<open>Messages: the textual form\<close>

lemma dict_set_fresh: "k \<notin> fst ` set a \<Longrightarrow> dict_set a k v = a @ [(k, v)]"
  by (induction a) auto

lemma dict_merge_distinct: "distinct (map fst (a @ d)) \<Longrightarrow> dict_merge a d = a @ d"
proof (induction d arbitrary: a)
  case Nil
  then show ?case by (simp add: dict_merge_def)
next
  case (Cons p d)
  obtain k v where p: "p = (k, v)" by (cases p)
  have fresh: "k \<notin> fst ` set a" using Cons.prems p by auto
  have "dict_merge a (p # d) = dict_merge (a @ [(k, v)]) d"
    by (simp add: dict_merge_def p dict_set_fresh[OF fresh])
  also have "\<dots> = (a @ [(k, v)]) @ d"
    using Cons.prems p by (intro Cons.IH) auto
  finally show ?case by (simp add: p)
qed

lemma json_roundtrip_all:
  "json_native lim d v \<longrightarrow>
     (\<forall>e\<ge>d. asdict_inner e v = Inr v \<and>
        (\<exists>j. json_dumps lim e v = Inr j \<and> (\<forall>e'\<ge>d. json_loads lim e' j = Inr v)))"
  "json_native_list lim d xs \<longrightarrow>
     (\<forall>e\<ge>d. asdict_list e xs = Inr xs \<and>
        (\<exists>js. json_dumps_list lim e xs = Inr js \<and>
           (\<forall>e'\<ge>d. json_loads_list lim e' js = Inr xs)))"
  "json_native_items lim d p \<longrightarrow>
     (\<forall>e\<ge>d. asdict_items e p = Inr p \<and>
        (\<exists>ms. json_dumps_items lim e p = Inr ms \<and>
           (\<forall>e'\<ge>d. json_loads_items lim e' ms = Inr p)))"
proof (induction lim d v and lim d xs and lim d p
    rule: json_native_json_native_list_json_native_items.induct)
  case (7 lim d xs)
  show ?case
  proof (intro impI allI)
    fix e assume n: "json_native lim d (PList xs)" and e: "d \<le> e"
    then have d: "0 < d" "json_native_list lim (d - 1) xs" by simp_all
    have le: "d - 1 \<le> e - 1" using e by simp
    from 7 d le obtain js where
      a: "asdict_list (e - 1) xs = Inr xs" and
      b: "json_dumps_list lim (e - 1) xs = Inr js" and
      c: "\<forall>e'\<ge>d - 1. json_loads_list lim e' js = Inr xs"
      by blast
    have c': "\<forall>e'\<ge>d. json_loads lim e' (JArr js) = Inr (PList xs)"
      using c d(1) by (auto simp: sum_bind_def)
    show "asdict_inner e (PList xs) = Inr (PList xs) \<and>
        (\<exists>j. json_dumps lim e (PList xs) = Inr j \<and> (\<forall>e'\<ge>d. json_loads lim e' j = Inr (PList xs)))"
      using a b c' d(1) e by (simp add: sum_bind_def)
  qed
next
  case (9 lim d p)
  show ?case
  proof (intro impI allI)
    fix e assume n: "json_native lim d (PDict p)" and e: "d \<le> e"
    then have d: "0 < d" "json_native_items lim (d - 1) p" "distinct (map fst p)" by simp_all
    have le: "d - 1 \<le> e - 1" using e by simp
    from 9 d le obtain ms where
      a: "asdict_items (e - 1) p = Inr p" and
      b: "json_dumps_items lim (e - 1) p = Inr ms" and
      c: "\<forall>e'\<ge>d - 1. json_loads_items lim e' ms = Inr p"
      by blast
    have m: "dict_merge [] p = p" using dict_merge_distinct[of "[]" p] d(3) by simp
    have c': "\<forall>e'\<ge>d. json_loads lim e' (JObj ms) = Inr (PDict p)"
      using c d(1) m by (auto simp: sum_bind_def)
    show "asdict_inner e (PDict p) = Inr (PDict p) \<and>
        (\<exists>j. json_dumps lim e (PDict p) = Inr j \<and> (\<forall>e'\<ge>d. json_loads lim e' j = Inr (PDict p)))"
      using a b c' d(1) e by (simp add: sum_bind_def)
  qed
next
  case (11 lim d x xs)
  show ?case
  proof (intro impI allI)
    fix e assume n: "json_native_list lim d (x # xs)" and e: "d \<le> e"
    then have d: "json_native lim d x" "json_native_list lim d xs" by simp_all
    from 11(1) d(1) e obtain j where
      a: "asdict_inner e x = Inr x" and
      b: "json_dumps lim e x = Inr j" and
      c: "\<forall>e'\<ge>d. json_loads lim e' j = Inr x"
      by blast
    from 11(2) d(2) e obtain js where
      a': "asdict_list e xs = Inr xs" and
      b': "json_dumps_list lim e xs = Inr js" and
      c': "\<forall>e'\<ge>d. json_loads_list lim e' js = Inr xs"
      by blast
    have l: "\<forall>e'\<ge>d. json_loads_list lim e' (j # js) = Inr (x # xs)"
      using c c' by (simp add: sum_bind_def)
    show "asdict_list e (x # xs) = Inr (x # xs) \<and>
        (\<exists>js. json_dumps_list lim e (x # xs) = Inr js \<and>
           (\<forall>e'\<ge>d. json_loads_list lim e' js = Inr (x # xs)))"
      using a a' b b' l by (simp add: sum_bind_def)
  qed
next
  case (13 lim d k v p)
  show ?case
  proof (intro impI allI)
    fix e assume n: "json_native_items lim d ((k, v) # p)" and e: "d \<le> e"
    then obtain s where k: "k = KStr s" by (cases k) simp_all
    from n have d: "json_native lim d v" "json_native_items lim d p" by simp_all
    from 13(1) d(1) e obtain j where
      a: "asdict_inner e v = Inr v" and
      b: "json_dumps lim e v = Inr j" and
      c: "\<forall>e'\<ge>d. json_loads lim e' j = Inr v"
      by blast
    from 13(2) d(2) e obtain ms where
      a': "asdict_items e p = Inr p" and
      b': "json_dumps_items lim e p = Inr ms" and
      c': "\<forall>e'\<ge>d. json_loads_items lim e' ms = Inr p"
      by blast
    have l: "\<forall>e'\<ge>d. json_loads_items lim e' ((s, j) # ms) = Inr ((k, v) # p)"
      using c c' k by (simp add: sum_bind_def)
    show "asdict_items e ((k, v) # p) = Inr ((k, v) # p) \<and>
        (\<exists>ms. json_dumps_items lim e ((k, v) # p) = Inr ms \<and>
           (\<forall>e'\<ge>d. json_loads_items lim e' ms = Inr ((k, v) # p)))"
      using a a' b b' l k by (simp add: sum_bind_def json_key_def)
  qed
qed (auto simp: sum_bind_def)

lemma json_roundtrip:
  assumes "json_native lim d v" and "d \<le> e" and "d \<le> e'"
  shows "\<exists>j. json_dumps lim e v = Inr j \<and> json_loads lim e' j = Inr v"
  using json_roundtrip_all(1)[of lim d v] assms by blast

lemma asdict_native:
  assumes "json_native lim d v" and "d \<le> e"
  shows "asdict_inner e v = Inr v"
  using json_roundtrip_all(1)[of lim d v] assms by blast

lemma from_dict_message:
  "from_dict now
     (PDict
       [(KStr ''sender'', PStr (sender m)),
        (KStr ''receiver'', PStr (receiver m)),
        (KStr ''type'', PStr (msg_type m)),
        (KStr ''trace_id'', PStr (trace_id m)),
        (KStr ''payload'', PDict (payload m)),
        (KStr ''timestamp'', PStr ts)]) = Inr (m\<lparr>timestamp := Some ts\<rparr>)"
  by (cases m) (auto simp: from_dict_def message_fields_def sum_bind_def str_field_def
      dict_field_def opt_str_field_def MCPMessage_def)

text \<open>
  Claim C6, as the code has it. For every message whose payload is made of objects that
  JSON has a form for (\<open>None\<close>, booleans, integers, floats other than \<open>NaN\<close>, strings,
  lists, dictionaries with string keys), nested no deeper than the recursion limit lets
  \<open>asdict\<close>, the encoder and the decoder go and with no integer of more decimal digits than
  the interpreter converts, serialising the message and reading the text back gives the
  message itself, field for field, whatever the clock reads when it is read back. The
  timestamp of a constructed message is the one given, and the reading of the clock when
  none was given: it is never null.
\<close>

theorem message_json_roundtrip:
  assumes "json_native lim d (PDict p)"
    and "d \<le> asdict_depth lim" and "d < encoder_depth lim" and "d < decoder_depth lim"
  shows "timestamp (MCPMessage now s r t tr p ts) = Some (case ts of None \<Rightarrow> now | Some given \<Rightarrow> given) \<and>
     timestamp (fst (new_message L w s r t tr p)) = Some (now_iso L (clock_reads w)) \<and>
     (\<exists>js. to_json lim (MCPMessage now s r t tr p ts) = Inr js \<and>
           from_json lim now' js = Inr (MCPMessage now s r t tr p ts))"
proof -
  let ?m = "MCPMessage now s r t tr p ts"
  let ?ts = "case ts of None \<Rightarrow> now | Some given \<Rightarrow> given"
  let ?d = "PDict
       [(KStr ''sender'', PStr (sender ?m)),
        (KStr ''receiver'', PStr (receiver ?m)),
        (KStr ''type'', PStr (msg_type ?m)),
        (KStr ''trace_id'', PStr (trace_id ?m)),
        (KStr ''payload'', PDict (payload ?m)),
        (KStr ''timestamp'', PStr ?ts)]"
  have ts: "timestamp ?m = Some ?ts"
    by (cases ts) (simp_all add: MCPMessage_def)
  have tn: "timestamp (fst (new_message L w s r t tr p)) = Some (now_iso L (clock_reads w))"
    by (simp add: new_message_def MCPMessage_def)
  have pl: "payload ?m = p" by (simp add: MCPMessage_def)
  have "asdict_inner (asdict_depth lim) (PDict p) = Inr (PDict p)"
    using asdict_native[OF assms(1,2)] .
  then have td: "to_dict lim ?m = Inr ?d"
    by (simp add: to_dict_def sum_bind_def pl ts)
  have "json_native lim (Suc d) ?d"
    using assms(1) by (simp add: pl)
  moreover have "Suc d \<le> encoder_depth lim" "Suc d \<le> decoder_depth lim"
    using assms(3,4) by simp_all
  ultimately obtain js where
    js: "json_dumps lim (encoder_depth lim) ?d = Inr js"
        "json_loads lim (decoder_depth lim) js = Inr ?d"
    using json_roundtrip[of lim "Suc d" ?d "encoder_depth lim" "decoder_depth lim"] by blast
  have "?m\<lparr>timestamp := Some ?ts\<rparr> = ?m" using ts by (cases ts) (simp_all add: MCPMessage_def)
  then have "from_dict now' ?d = Inr ?m"
    using from_dict_message[of now' ?m ?ts] by simp
  then have "from_json lim now' js = Inr ?m"
    by (simp add: from_json_def js(2) sum_bind_def)
  then show ?thesis using ts tn js(1) td by (simp add: to_json_def sum_bind_def)
qed


text \<open>A query message with a nested payload satisfies the hypotheses.\<close>

theorem message_json_roundtrip_witness:
  "json_native demo_limits 4 (PDict [(KStr ''query'', PStr ''hi''),
        (KStr ''nested'', PDict [(KStr ''xs'', PList [PInt 1, PNone, PDict []])])]) \<and>
   4 \<le> asdict_depth demo_limits \<and> 4 < encoder_depth demo_limits \<and> 4 < decoder_depth demo_limits \<and>
   timestamp (MCPMessage ''2025-01-01T00:00:00'' ''ui'' ''CoordinatorAgent'' ''QUERY_REQUEST'' ''trace-1''
      [(KStr ''query'', PStr ''hi''),
       (KStr ''nested'', PDict [(KStr ''xs'', PList [PInt 1, PNone, PDict []])])] None) =
     Some ''2025-01-01T00:00:00'' \<and>
   (\<exists>js. to_json demo_limits (MCPMessage ''2025-01-01T00:00:00'' ''ui'' ''CoordinatorAgent'' ''QUERY_REQUEST'' ''trace-1''
      [(KStr ''query'', PStr ''hi''),
       (KStr ''nested'', PDict [(KStr ''xs'', PList [PInt 1, PNone, PDict []])])] None) = Inr js \<and>
     from_json demo_limits ''2025-01-01T00:00:09'' js =
       Inr (MCPMessage ''2025-01-01T00:00:00'' ''ui'' ''CoordinatorAgent'' ''QUERY_REQUEST'' ''trace-1''
      [(KStr ''query'', PStr ''hi''),
       (KStr ''nested'', PDict [(KStr ''xs'', PList [PInt 1, PNone, PDict []])])] None))"
proof -
  have n: "json_native demo_limits 4 (PDict [(KStr ''query'', PStr ''hi''),
        (KStr ''nested'', PDict [(KStr ''xs'', PList [PInt 1, PNone, PDict []])])])"
    by (simp add: int_str_ok_def demo_limits_def)
  have l: "4 \<le> asdict_depth demo_limits" "4 < encoder_depth demo_limits"
    "4 < decoder_depth demo_limits"
    by (simp_all add: demo_limits_def)
  show ?thesis
    using n l message_json_roundtrip[OF n l, of "''2025-01-01T00:00:00''" "''ui''" "''CoordinatorAgent''"
        "''QUERY_REQUEST''" "''trace-1''" None]
    by simp
qed

text \<open>
  Claim C6 as the specification states it, for every message, fails: an upload message
  carries the file content as \<open>bytes\<close>, which \<open>json.dumps\<close> refuses, and a tuple in a
  payload is read back as a list, so the message read back differs from the original.
\<close>

theorem message_json_not_roundtrip:
  "isl (to_json demo_limits (MCPMessage ''2025-01-01T00:00:00'' ''ui'' ''CoordinatorAgent''
      ''DOCUMENT_UPLOAD'' ''trace-1''
      [(KStr ''file_name'', PStr ''a.txt''), (KStr ''file_content'', PBytes ''hello''),
       (KStr ''file_type'', PStr ''text/plain'')] None)) \<and>
   sum_bind
     (to_json demo_limits (MCPMessage ''2025-01-01T00:00:00'' ''a'' ''b'' ''SUCCESS'' ''trace-2''
        [(KStr ''shape'', PTuple [PInt 2, PInt 3])] None))
     (from_json demo_limits ''2025-01-01T00:00:09'') =
     Inr (MCPMessage ''2025-01-01T00:00:00'' ''a'' ''b'' ''SUCCESS'' ''trace-2''
        [(KStr ''shape'', PList [PInt 2, PInt 3])] None) \<and>
   MCPMessage ''2025-01-01T00:00:00'' ''a'' ''b'' ''SUCCESS'' ''trace-2''
        [(KStr ''shape'', PList [PInt 2, PInt 3])] None \<noteq>
   MCPMessage ''2025-01-01T00:00:00'' ''a'' ''b'' ''SUCCESS'' ''trace-2''
        [(KStr ''shape'', PTuple [PInt 2, PInt 3])] None"
  by (simp add: to_json_def to_dict_def MCPMessage_def sum_bind_def from_json_def from_dict_def
      message_fields_def str_field_def dict_field_def opt_str_field_def dict_merge_def
      demo_limits_def int_str_ok_def json_key_def)

section \<open>Reading the results of the helper constructors\<close>

lemma dict_get_simps [simp]:
  "dict_get [] k = PNone"
  "dict_get ((KStr k', v) # d) k = (if k' = k then v else dict_get d k)"
  "dict_get ((KInt i, v) # d) k = dict_get d k"
  by (simp_all add: dict_get_def)

lemma dict_get_default_simps [simp]:
  "dict_get_default [] k x = x"
  "dict_get_default ((KStr k', v) # d) k x = (if k' = k then v else dict_get_default d k x)"
  "dict_get_default ((KInt i, v) # d) k x = dict_get_default d k x"
  by (simp_all add: dict_get_default_def)

lemma new_message_fst [simp]:
  "msg_type (fst (new_message L w s r t tr p)) = t"
  "payload (fst (new_message L w s r t tr p)) = p"
  "trace_id (fst (new_message L w s r t tr p)) = tr"
  "sender (fst (new_message L w s r t tr p)) = s"
  "receiver (fst (new_message L w s r t tr p)) = r"
  by (simp_all add: new_message_def MCPMessage_def)

lemma new_message_snd [simp]:
  "invoked (snd (new_message L w s r t tr p)) = invoked w"
  "stdout (snd (new_message L w s r t tr p)) = stdout w"
  "objects (snd (new_message L w s r t tr p)) = objects w"
  "next_addr (snd (new_message L w s r t tr p)) = next_addr w"
  "uuid_calls (snd (new_message L w s r t tr p)) = uuid_calls w"
  "rand_calls (snd (new_message L w s r t tr p)) = rand_calls w"
  by (simp_all add: new_message_def)

lemma create_response_fst [simp]:
  "msg_type (fst (create_response_message L w m s t p)) = t"
  "payload (fst (create_response_message L w m s t p)) = p"
  "trace_id (fst (create_response_message L w m s t p)) = trace_id m"
  by (simp_all add: create_response_message_def)

lemma create_response_snd [simp]:
  "invoked (snd (create_response_message L w m s t p)) = invoked w"
  "stdout (snd (create_response_message L w m s t p)) = stdout w"
  "objects (snd (create_response_message L w m s t p)) = objects w"
  "next_addr (snd (create_response_message L w m s t p)) = next_addr w"
  "uuid_calls (snd (create_response_message L w m s t p)) = uuid_calls w"
  by (simp_all add: create_response_message_def)

lemma create_error_fst [simp]:
  "msg_type (fst (create_error_message L w m s e)) = ''ERROR''"
  "payload (fst (create_error_message L w m s e)) =
     [(KStr ''error'', PStr e), (KStr ''original_type'', PStr (msg_type m))]"
  by (simp_all add: create_error_message_def)

lemma create_error_snd [simp]:
  "invoked (snd (create_error_message L w m s e)) = invoked w"
  "stdout (snd (create_error_message L w m s e)) = stdout w"
  "objects (snd (create_error_message L w m s e)) = objects w"
  "next_addr (snd (create_error_message L w m s e)) = next_addr w"
  "uuid_calls (snd (create_error_message L w m s e)) = uuid_calls w"
  by (simp_all add: create_error_message_def)

lemma respond_simps [simp]:
  "fst (respond mw a) = fst mw"
  "fst (snd (respond mw a)) = a"
  "snd (snd (respond mw a)) = snd mw"
  by (simp_all add: respond_def)

section \<open>Ingestion Agent: validation and the choice of the parser\<close>

lemma chunk_text_default_ok: "\<exists>cs. chunk_text uuid body src 1000 200 = Inr cs"
  by (simp add: chunk_text_def Let_def)

lemma ends_with_iff: "ends_with n s \<longleftrightarrow> (\<exists>p. n = p @ s)"
proof
  assume "ends_with n s"
  then have "n = take (length n - length s) n @ s"
    by (metis append_take_drop_id ends_with_def)
  then show "\<exists>p. n = p @ s" by blast
next
  assume "\<exists>p. n = p @ s"
  then show "ends_with n s" by (auto simp: ends_with_def)
qed

lemma ends_with_last2:
  assumes "ends_with n a" and "ends_with n b"
  shows "take (min (length a) (length b)) (rev a) = take (min (length a) (length b)) (rev b)"
proof -
  obtain p where p: "n = p @ a" using assms(1) by (auto simp: ends_with_iff)
  obtain q where q: "n = q @ b" using assms(2) by (auto simp: ends_with_iff)
  have ra: "rev n = rev a @ rev p" unfolding p by simp
  have rb: "rev n = rev b @ rev q" unfolding q by simp
  have "rev a @ rev p = rev b @ rev q" using ra rb by (rule trans[OF sym])
  then have "take (min (length a) (length b)) (rev a @ rev p) =
      take (min (length a) (length b)) (rev b @ rev q)" by simp
  then show ?thesis by simp
qed

lemma parser_type_of_table:
  assumes "py_lower fname = stem @ ext"
    and "(ext, pt) \<in> set [(''.pdf'', ''pdf''), (''.pptx'', ''pptx''), (''.docx'', ''docx''),
           (''.csv'', ''csv''), (''.txt'', ''text''), (''.md'', ''text'')]"
  shows "parser_type_of fname = Some pt"
proof -
  have e: "ends_with (py_lower fname) ext" using assms(1) by (auto simp: ends_with_iff)
  have x: "\<not> ends_with (py_lower fname) b"
    if "take (min (length ext) (length b)) (rev ext) \<noteq> take (min (length ext) (length b)) (rev b)" for b
    using ends_with_last2[OF e, of b] that by blast
  have c1: ?thesis if "ext = ''.pdf''" "pt = ''pdf''"
    using e unfolding that by (simp add: parser_type_of_def Let_def)
  have c2: ?thesis if "ext = ''.pptx''" "pt = ''pptx''"
    using e x[of "''.pdf''"] unfolding that by (simp add: parser_type_of_def Let_def)
  have c3: ?thesis if "ext = ''.docx''" "pt = ''docx''"
    using e x[of "''.pdf''"] x[of "''.pptx''"] unfolding that
    by (simp add: parser_type_of_def Let_def)
  have c4: ?thesis if "ext = ''.csv''" "pt = ''csv''"
    using e x[of "''.pdf''"] x[of "''.pptx''"] x[of "''.docx''"] unfolding that
    by (simp add: parser_type_of_def Let_def)
  have c5: ?thesis if "ext = ''.txt''" "pt = ''text''"
    using e x[of "''.pdf''"] x[of "''.pptx''"] x[of "''.docx''"] x[of "''.csv''"] unfolding that
    by (simp add: parser_type_of_def Let_def)
  have c6: ?thesis if "ext = ''.md''" "pt = ''text''"
    using e x[of "''.pdf''"] x[of "''.pptx''"] x[of "''.docx''"] x[of "''.csv''"] unfolding that
    by (simp add: parser_type_of_def Let_def)
  have "(ext = ''.pdf'' \<and> pt = ''pdf'') \<or> (ext = ''.pptx'' \<and> pt = ''pptx'') \<or>
      (ext = ''.docx'' \<and> pt = ''docx'') \<or> (ext = ''.csv'' \<and> pt = ''csv'') \<or>
      (ext = ''.txt'' \<and> pt = ''text'') \<or> (ext = ''.md'' \<and> pt = ''text'')"
    using assms(2) by (simp only: list.set insert_iff empty_iff prod.inject simp_thms)
  then show ?thesis
    by (elim disjE conjE) (erule (1) c1 c2 c3 c4 c5 c6)+
qed

lemma parser_type_of_none:
  assumes "\<forall>ext\<in>set [''.pdf'', ''.pptx'', ''.docx'', ''.csv'', ''.txt'', ''.md''].
             \<not> (\<exists>stem. py_lower fname = stem @ ext)"
  shows "parser_type_of fname = None"
  using assms by (simp add: parser_type_of_def Let_def ends_with_iff)

lemma map_of_dict_merge: "map_of (dict_merge a b) = map_of a ++ map_of (rev b)"
proof (induction b arbitrary: a)
  case Nil
  then show ?case by (simp add: dict_merge_def)
next
  case (Cons x b)
  obtain k v where x: "x = (k, v)" by (cases x)
  have "dict_merge a (x # b) = dict_merge (dict_set a k v) b"
    by (simp add: dict_merge_def x)
  then have "map_of (dict_merge a (x # b)) = (map_of a)(k \<mapsto> v) ++ map_of (rev b)"
    by (simp only: Cons.IH map_of_dict_set)
  also have "\<dots> = map_of a ++ map_of (rev (x # b))"
    unfolding x by (rule ext) (simp add: map_add_def split: option.splits)
  finally show ?case .
qed

lemma dict_merge_absent:
  assumes "k \<notin> fst ` set b"
  shows "map_of (dict_merge a b) k = map_of a k"
proof -
  have "map_of (rev b) k = None" using assms by (simp add: map_of_eq_None_iff)
  then show ?thesis by (simp add: map_of_dict_merge map_add_def)
qed

lemma dict_get_dict_set:
  "dict_get (dict_set d (KStr k) v) k' = (if k' = k then v else dict_get d k')"
  by (simp add: dict_get_def map_of_dict_set)

lemma parse_document_kind:
  "isl (fst (parse_document L w fn fc ft)) = isl (fst (parse_document L w fn fc ft'))"
  by (simp add: parse_document_def Let_def
      split: pyval.splits option.splits sum.splits prod.splits)

lemma process_document_kind:
  assumes "truthy (dict_get (payload message) ''file_name'')"
    and "truthy (dict_get (payload message) ''file_content'')"
  shows "msg_type (fst (process_document L ia w message)) =
     (if isl (fst (parse_document L w (dict_get (payload message) ''file_name'')
                     (dict_get (payload message) ''file_content'')
                     (dict_get (payload message) ''file_type'')))
      then ''ERROR'' else ''DOCUMENT_PARSED'')"
proof (cases "parse_document L w (dict_get (payload message) ''file_name'')
                     (dict_get (payload message) ''file_content'')
                     (dict_get (payload message) ''file_type'')")
  case (Pair r w1)
  show ?thesis
  proof (cases r)
    case (Inl e)
    then show ?thesis using assms Pair by (simp add: process_document_def Let_def)
  next
    case (Inr t)
    then show ?thesis using assms Pair
      by (simp add: process_document_def Let_def case_prod_beta)
  qed
qed

lemma process_document_failed:
  assumes "truthy (dict_get (payload message) ''file_name'')"
    and "truthy (dict_get (payload message) ''file_content'')"
    and "parse_document L w (dict_get (payload message) ''file_name'')
           (dict_get (payload message) ''file_content'')
           (dict_get (payload message) ''file_type'') = (Inl e, w1)"
  shows "msg_type (fst (process_document L ia w message)) = ''ERROR'' \<and>
     dict_get (payload (fst (process_document L ia w message))) ''error'' =
       PStr (''Document processing failed: '' @ exn_str e) \<and>
     fst (snd (process_document L ia w message)) = ia"
  using assms by (simp add: process_document_def Let_def)

text \<open>
  Claim C10. Let an upload message carry a file name and a file content that are both
  true (not empty); nothing is assumed about \<open>file_type\<close>, which may be missing or empty.
  Then the agent does not answer with the validation error, and whether it answers
  \<open>DOCUMENT_PARSED\<close> or \<open>ERROR\<close> does not change when \<open>file_type\<close> is replaced by any other
  object. When the file name is a string, the parser is decided by its extension, in lower
  case, and by nothing else:
  \<^item> if the name ends in none of \<open>.pdf\<close>, \<open>.pptx\<close>, \<open>.docx\<close>, \<open>.csv\<close>, \<open>.txt\<close>, \<open>.md\<close>, the
    answer is the error \<open>Unsupported file type\<close> and nothing is stored, whatever was
    declared;
  \<^item> if it ends in one of them, the document parser is called with the parser type of that
    extension (\<open>text\<close> for \<open>.txt\<close> and \<open>.md\<close>). When it raises, the answer is an error carrying
    its message and nothing is stored. When it returns, the answer is \<open>DOCUMENT_PARSED\<close>
    with the chunks of the extracted text, and the document is stored under a new
    identifier with the given name, the extracted text, the chunks, and as its type
    exactly what the payload gave for \<open>file_type\<close> (\<open>None\<close> when it gave nothing); its
    metadata record the parser type of the extension and the declared type, unless the
    parser's own metadata have entries under these names.
\<close>

theorem upload_without_declared_type:
  assumes "msg_type message = ''DOCUMENT_UPLOAD''"
    and "truthy (dict_get (payload message) ''file_name'')"
    and "truthy (dict_get (payload message) ''file_content'')"
  shows "dict_get (payload (fst (ingestion_handle_message L ia w message))) ''error'' \<noteq>
       PStr ''Missing required fields: file_name or file_content'' \<and>
     (\<forall>declared.
        msg_type (fst (ingestion_handle_message L ia w
           (message\<lparr>payload := dict_set (payload message) (KStr ''file_type'') declared\<rparr>))) =
        msg_type (fst (ingestion_handle_message L ia w message))) \<and>
     (\<forall>fname. dict_get (payload message) ''file_name'' = PStr fname \<longrightarrow>
        ((\<forall>ext\<in>set [''.pdf'', ''.pptx'', ''.docx'', ''.csv'', ''.txt'', ''.md''].
             \<not> (\<exists>stem. py_lower fname = stem @ ext)) \<longrightarrow>
           msg_type (fst (ingestion_handle_message L ia w message)) = ''ERROR'' \<and>
           dict_get (payload (fst (ingestion_handle_message L ia w message))) ''error'' =
             PStr (''Document processing failed: Failed to parse document '' @ fname @
                   '': Unsupported file type: '' @ fname) \<and>
           fst (snd (ingestion_handle_message L ia w message)) = ia) \<and>
        (\<forall>stem ext pt.
           py_lower fname = stem @ ext \<and>
           (ext, pt) \<in> set [(''.pdf'', ''pdf''), (''.pptx'', ''pptx''), (''.docx'', ''docx''),
              (''.csv'', ''csv''), (''.txt'', ''text''), (''.md'', ''text'')] \<longrightarrow>
           (\<forall>e. doc_parse L (dict_get (payload message) ''file_content'') pt = Inl e \<longrightarrow>
              msg_type (fst (ingestion_handle_message L ia w message)) = ''ERROR'' \<and>
              dict_get (payload (fst (ingestion_handle_message L ia w message))) ''error'' =
                PStr (''Document processing failed: Failed to parse document '' @ fname @
                      '': '' @ exn_str e) \<and>
              fst (snd (ingestion_handle_message L ia w message)) = ia) \<and>
           (\<forall>body parsed_data md.
              doc_parse L (dict_get (payload message) ''file_content'') pt =
                Inr (body, parsed_data) \<and>
              mapping_items (dict_get_default parsed_data ''metadata'' (PDict [])) = Inr md \<longrightarrow>
              (\<exists>cs meta doc_id.
                 chunk_text (\<lambda>k. uuid4 L (uuid_calls w + k)) body fname 1000 200 = Inr cs \<and>
                 doc_id = uuid4 L (uuid_calls w + length cs) \<and>
                 meta =
                   dict_merge
                     [(KStr ''file_name'', PStr fname),
                      (KStr ''file_type'', dict_get (payload message) ''file_type''),
                      (KStr ''parser_type'', PStr pt),
                      (KStr ''page_count'', dict_get_default parsed_data ''page_count'' (PInt 1)),
                      (KStr ''word_count'', PInt (int (length (py_split body))))]
                     md \<and>
                 (KStr ''parser_type'' \<notin> fst ` set md \<longrightarrow>
                    dict_get meta ''parser_type'' = PStr pt) \<and>
                 (KStr ''file_type'' \<notin> fst ` set md \<longrightarrow>
                    dict_get meta ''file_type'' = dict_get (payload message) ''file_type'') \<and>
                 msg_type (fst (ingestion_handle_message L ia w message)) = ''DOCUMENT_PARSED'' \<and>
                 payload (fst (ingestion_handle_message L ia w message)) =
                   [(KStr ''status'', PStr ''success''),
                    (KStr ''document_id'', PStr doc_id),
                    (KStr ''file_name'', PStr fname),
                    (KStr ''chunks'', PList cs),
                    (KStr ''metadata'', PDict meta),
                    (KStr ''total_chunks'', PInt (int (length cs)))] \<and>
                 get_document (fst (snd (ingestion_handle_message L ia w message))) doc_id =
                   Some [(KStr ''id'', PStr doc_id),
                         (KStr ''name'', PStr fname),
                         (KStr ''type'', dict_get (payload message) ''file_type''),
                         (KStr ''content'', PStr body),
                         (KStr ''chunks'', PList cs),
                         (KStr ''metadata'', PDict meta)]))))"
proof -
  let ?w = "entered w ''IngestionAgent''"
  let ?fn = "dict_get (payload message) ''file_name''"
  let ?fc = "dict_get (payload message) ''file_content''"
  let ?ft = "dict_get (payload message) ''file_type''"
  let ?h = "ingestion_handle_message L ia w message"
  have hm: "?h = process_document L ia ?w message"
    using assms(1) by (simp add: ingestion_handle_message_def Let_def)
  have kind: "msg_type (fst ?h) =
      (if isl (fst (parse_document L ?w ?fn ?fc ?ft)) then ''ERROR'' else ''DOCUMENT_PARSED'')"
    unfolding hm by (rule process_document_kind[OF assms(2,3)])
  have A: "dict_get (payload (fst ?h)) ''error'' \<noteq>
       PStr ''Missing required fields: file_name or file_content''"
  proof (cases "parse_document L ?w ?fn ?fc ?ft")
    case (Pair r w1)
    show ?thesis
    proof (cases r)
      case (Inl e)
      then show ?thesis
        unfolding hm using assms(2,3) Pair
        by (simp add: process_document_def Let_def)
    next
      case (Inr t)
      then show ?thesis
        unfolding hm using assms(2,3) Pair
        by (simp add: process_document_def Let_def case_prod_beta)
    qed
  qed
  have B: "msg_type (fst (ingestion_handle_message L ia w
           (message\<lparr>payload := dict_set (payload message) (KStr ''file_type'') declared\<rparr>))) =
        msg_type (fst ?h)" for declared
  proof -
    let ?m = "message\<lparr>payload := dict_set (payload message) (KStr ''file_type'') declared\<rparr>"
    have g: "dict_get (payload ?m) ''file_name'' = ?fn"
      "dict_get (payload ?m) ''file_content'' = ?fc"
      "dict_get (payload ?m) ''file_type'' = declared"
      by (simp_all add: dict_get_dict_set)
    have "ingestion_handle_message L ia w ?m = process_document L ia ?w ?m"
      using assms(1) by (simp add: ingestion_handle_message_def Let_def)
    moreover have "msg_type (fst (process_document L ia ?w ?m)) =
      (if isl (fst (parse_document L ?w ?fn ?fc declared)) then ''ERROR'' else ''DOCUMENT_PARSED'')"
      using process_document_kind[of ?m L ia ?w] assms(2,3) unfolding g by simp
    ultimately show ?thesis
      using kind parse_document_kind[of L ?w ?fn ?fc declared ?ft] by simp
  qed
  have C: "msg_type (fst ?h) = ''ERROR'' \<and>
           dict_get (payload (fst ?h)) ''error'' =
             PStr (''Document processing failed: Failed to parse document '' @ fname @
                   '': Unsupported file type: '' @ fname) \<and>
           fst (snd ?h) = ia"
    if h: "?fn = PStr fname"
      "\<forall>ext\<in>set [''.pdf'', ''.pptx'', ''.docx'', ''.csv'', ''.txt'', ''.md''].
             \<not> (\<exists>stem. py_lower fname = stem @ ext)"
    for fname
  proof -
    have pt: "parser_type_of fname = None" by (rule parser_type_of_none[OF h(2)])
    have pd: "parse_document L ?w ?fn ?fc ?ft =
        (Inl (parse_failure L (PStr fname)
           (Raised ''ValueError'' (''Unsupported file type: '' @ fname))), ?w)"
      by (simp add: parse_document_def h(1) pt)
    show ?thesis
      unfolding hm using process_document_failed[OF assms(2,3) pd, of ia]
      by (simp add: parse_failure_def py_str_def)
  qed
  have D: "msg_type (fst ?h) = ''ERROR'' \<and>
              dict_get (payload (fst ?h)) ''error'' =
                PStr (''Document processing failed: Failed to parse document '' @ fname @
                      '': '' @ exn_str e) \<and>
              fst (snd ?h) = ia"
    if h: "?fn = PStr fname" "py_lower fname = stem @ ext"
      "(ext, pt) \<in> set [(''.pdf'', ''pdf''), (''.pptx'', ''pptx''), (''.docx'', ''docx''),
              (''.csv'', ''csv''), (''.txt'', ''text''), (''.md'', ''text'')]"
      "doc_parse L ?fc pt = Inl e"
    for fname stem ext pt e
  proof -
    have pt: "parser_type_of fname = Some pt" by (rule parser_type_of_table[OF h(2,3)])
    have pd: "parse_document L ?w ?fn ?fc ?ft = (Inl (parse_failure L (PStr fname) e), ?w)"
      by (simp add: parse_document_def h(1,4) pt)
    show ?thesis
      unfolding hm using process_document_failed[OF assms(2,3) pd, of ia]
      by (simp add: parse_failure_def py_str_def)
  qed
  have E: "\<exists>cs meta doc_id.
                 chunk_text (\<lambda>k. uuid4 L (uuid_calls w + k)) body fname 1000 200 = Inr cs \<and>
                 doc_id = uuid4 L (uuid_calls w + length cs) \<and>
                 meta =
                   dict_merge
                     [(KStr ''file_name'', PStr fname),
                      (KStr ''file_type'', ?ft),
                      (KStr ''parser_type'', PStr pt),
                      (KStr ''page_count'', dict_get_default parsed_data ''page_count'' (PInt 1)),
                      (KStr ''word_count'', PInt (int (length (py_split body))))]
                     md \<and>
                 (KStr ''parser_type'' \<notin> fst ` set md \<longrightarrow>
                    dict_get meta ''parser_type'' = PStr pt) \<and>
                 (KStr ''file_type'' \<notin> fst ` set md \<longrightarrow>
                    dict_get meta ''file_type'' = ?ft) \<and>
                 msg_type (fst ?h) = ''DOCUMENT_PARSED'' \<and>
                 payload (fst ?h) =
                   [(KStr ''status'', PStr ''success''),
                    (KStr ''document_id'', PStr doc_id),
                    (KStr ''file_name'', PStr fname),
                    (KStr ''chunks'', PList cs),
                    (KStr ''metadata'', PDict meta),
                    (KStr ''total_chunks'', PInt (int (length cs)))] \<and>
                 get_document (fst (snd ?h)) doc_id =
                   Some [(KStr ''id'', PStr doc_id),
                         (KStr ''name'', PStr fname),
                         (KStr ''type'', ?ft),
                         (KStr ''content'', PStr body),
                         (KStr ''chunks'', PList cs),
                         (KStr ''metadata'', PDict meta)]"
    if h: "?fn = PStr fname" "py_lower fname = stem @ ext"
      "(ext, pt) \<in> set [(''.pdf'', ''pdf''), (''.pptx'', ''pptx''), (''.docx'', ''docx''),
              (''.csv'', ''csv''), (''.txt'', ''text''), (''.md'', ''text'')]"
      "doc_parse L ?fc pt = Inr (body, parsed_data)"
      "mapping_items (dict_get_default parsed_data ''metadata'' (PDict [])) = Inr md"
    for fname stem ext pt body parsed_data md
  proof -
    let ?base = "[(KStr ''file_name'', PStr fname),
                      (KStr ''file_type'', ?ft),
                      (KStr ''parser_type'', PStr pt),
                      (KStr ''page_count'', dict_get_default parsed_data ''page_count'' (PInt 1)),
                      (KStr ''word_count'', PInt (int (length (py_split body))))]"
    let ?meta = "dict_merge ?base md"
    have pt: "parser_type_of fname = Some pt" by (rule parser_type_of_table[OF h(2,3)])
    obtain cs where cs: "chunk_text (\<lambda>k. uuid4 L (uuid_calls w + k)) body fname 1000 200 = Inr cs"
      using chunk_text_default_ok by blast
    have uw: "uuid_calls ?w = uuid_calls w" by (simp add: entered_def)
    have pd: "parse_document L ?w ?fn ?fc ?ft =
        (Inr (body, cs, ?meta), ?w\<lparr>uuid_calls := uuid_calls w + length cs\<rparr>)"
      by (simp add: parse_document_def h(1,4,5) pt uw cs Let_def)
    have m1: "dict_get ?meta ''parser_type'' = PStr pt" if "KStr ''parser_type'' \<notin> fst ` set md"
      using dict_merge_absent[OF that, of ?base] by (simp add: dict_get_def)
    have m2: "dict_get ?meta ''file_type'' = ?ft" if "KStr ''file_type'' \<notin> fst ` set md"
      using dict_merge_absent[OF that, of ?base] by (simp add: dict_get_def)
    have r: "msg_type (fst ?h) = ''DOCUMENT_PARSED''"
      "payload (fst ?h) =
                   [(KStr ''status'', PStr ''success''),
                    (KStr ''document_id'', PStr (uuid4 L (uuid_calls w + length cs))),
                    (KStr ''file_name'', PStr fname),
                    (KStr ''chunks'', PList cs),
                    (KStr ''metadata'', PDict ?meta),
                    (KStr ''total_chunks'', PInt (int (length cs)))]"
      "get_document (fst (snd ?h)) (uuid4 L (uuid_calls w + length cs)) =
                   Some [(KStr ''id'', PStr (uuid4 L (uuid_calls w + length cs))),
                         (KStr ''name'', PStr fname),
                         (KStr ''type'', ?ft),
                         (KStr ''content'', PStr body),
                         (KStr ''chunks'', PList cs),
                         (KStr ''metadata'', PDict ?meta)]"
      unfolding hm using assms(2,3) h(1) pd
      by (simp_all add: process_document_def Let_def get_document_def map_of_dict_set)
    show ?thesis
      using cs m1 m2 r by (intro exI[of _ cs] exI[of _ ?meta] exI[of _ "uuid4 L (uuid_calls w + length cs)"]) simp
  qed
  show ?thesis
    apply (rule conjI, rule A)
    apply (rule conjI, rule allI, rule B)
    apply (rule allI, rule impI)
    apply (rule conjI)
     apply (rule impI, erule (1) C)
    apply (intro allI impI, elim conjE)
    apply (rule conjI)
     apply (intro allI impI, erule (3) D)
    apply (intro allI impI, elim conjE, erule (4) E)
    done
qed

text \<open>
  An upload of \<open>Report.PDF\<close> with no \<open>file_type\<close> at all is parsed as \<open>pdf\<close> and stored with
  type \<open>None\<close>; an upload of \<open>notes.xyz\<close> declared as \<open>application/pdf\<close> is refused.
\<close>

lemma lower_report: "py_lower ''Report.PDF'' = ''report'' @ ''.pdf''"
  by (simp add: py_lower_def lower_char_def Let_def char_of_def bit_0)

lemma no_parser_xyz:
  "\<forall>ext\<in>set [''.pdf'', ''.pptx'', ''.docx'', ''.csv'', ''.txt'', ''.md''].
     \<not> (\<exists>stem. py_lower ''notes.xyz'' = stem @ ext)"
  unfolding ends_with_iff[symmetric]
  by (simp add: py_lower_def lower_char_def Let_def ends_with_def)

theorem upload_without_declared_type_witness:
  "msg_type (MCPMessage ''2025-01-01T00:00:00'' ''ui'' ''CoordinatorAgent'' ''DOCUMENT_UPLOAD''
      ''trace-1''
      [(KStr ''file_name'', PStr ''Report.PDF''), (KStr ''file_content'', PBytes ''one two'')]
      None) = ''DOCUMENT_UPLOAD'' \<and>
   truthy (dict_get (payload (MCPMessage ''2025-01-01T00:00:00'' ''ui'' ''CoordinatorAgent''
      ''DOCUMENT_UPLOAD'' ''trace-1''
      [(KStr ''file_name'', PStr ''Report.PDF''), (KStr ''file_content'', PBytes ''one two'')]
      None)) ''file_name'') \<and>
   truthy (dict_get (payload (MCPMessage ''2025-01-01T00:00:00'' ''ui'' ''CoordinatorAgent''
      ''DOCUMENT_UPLOAD'' ''trace-1''
      [(KStr ''file_name'', PStr ''Report.PDF''), (KStr ''file_content'', PBytes ''one two'')]
      None)) ''file_content'') \<and>
   dict_get (payload (MCPMessage ''2025-01-01T00:00:00'' ''ui'' ''CoordinatorAgent''
      ''DOCUMENT_UPLOAD'' ''trace-1''
      [(KStr ''file_name'', PStr ''Report.PDF''), (KStr ''file_content'', PBytes ''one two'')]
      None)) ''file_type'' = PNone \<and>
   msg_type (fst (ingestion_handle_message demo_libs new_ingestion_agent new_world
        (MCPMessage ''2025-01-01T00:00:00'' ''ui'' ''CoordinatorAgent'' ''DOCUMENT_UPLOAD''
           ''trace-1''
           [(KStr ''file_name'', PStr ''Report.PDF''), (KStr ''file_content'', PBytes ''one two'')]
           None))) = ''DOCUMENT_PARSED'' \<and>
   (\<exists>doc_id cs meta.
      get_document (fst (snd (ingestion_handle_message demo_libs new_ingestion_agent new_world
        (MCPMessage ''2025-01-01T00:00:00'' ''ui'' ''CoordinatorAgent'' ''DOCUMENT_UPLOAD''
           ''trace-1''
           [(KStr ''file_name'', PStr ''Report.PDF''), (KStr ''file_content'', PBytes ''one two'')]
           None)))) doc_id =
        Some [(KStr ''id'', PStr doc_id),
              (KStr ''name'', PStr ''Report.PDF''),
              (KStr ''type'', PNone),
              (KStr ''content'', PStr ''one two''),
              (KStr ''chunks'', PList cs),
              (KStr ''metadata'', PDict meta)] \<and>
      dict_get meta ''parser_type'' = PStr ''pdf'' \<and>
      dict_get meta ''file_type'' = PNone) \<and>
   msg_type (fst (ingestion_handle_message demo_libs new_ingestion_agent new_world
        (MCPMessage ''2025-01-01T00:00:00'' ''ui'' ''CoordinatorAgent'' ''DOCUMENT_UPLOAD''
           ''trace-2''
           [(KStr ''file_name'', PStr ''notes.xyz''), (KStr ''file_content'', PBytes ''one two''),
            (KStr ''file_type'', PStr ''application/pdf'')]
           None))) = ''ERROR''"
proof -
  let ?M = "MCPMessage ''2025-01-01T00:00:00'' ''ui'' ''CoordinatorAgent'' ''DOCUMENT_UPLOAD''
      ''trace-1''
      [(KStr ''file_name'', PStr ''Report.PDF''), (KStr ''file_content'', PBytes ''one two'')]
      None"
  let ?N = "MCPMessage ''2025-01-01T00:00:00'' ''ui'' ''CoordinatorAgent'' ''DOCUMENT_UPLOAD''
           ''trace-2''
           [(KStr ''file_name'', PStr ''notes.xyz''), (KStr ''file_content'', PBytes ''one two''),
            (KStr ''file_type'', PStr ''application/pdf'')]
           None"
  let ?pd = "[(KStr ''metadata'', PDict [(KStr ''parser'', PStr ''pdf'')])]"
  let ?md = "[(KStr ''parser'', PStr ''pdf'')]"
  have t: "msg_type ?M = ''DOCUMENT_UPLOAD''" by (simp add: MCPMessage_def)
  have n: "truthy (dict_get (payload ?M) ''file_name'')" by (simp add: MCPMessage_def)
  have c: "truthy (dict_get (payload ?M) ''file_content'')" by (simp add: MCPMessage_def)
  have ft: "dict_get (payload ?M) ''file_type'' = PNone" by (simp add: MCPMessage_def)
  have fn: "dict_get (payload ?M) ''file_name'' = PStr ''Report.PDF''"
    by (simp add: MCPMessage_def)
  have tab: "(''.pdf'', ''pdf'') \<in> set [(''.pdf'', ''pdf''), (''.pptx'', ''pptx''),
      (''.docx'', ''docx''), (''.csv'', ''csv''), (''.txt'', ''text''), (''.md'', ''text'')]"
    by simp
  have dp: "doc_parse demo_libs (dict_get (payload ?M) ''file_content'') ''pdf'' =
      Inr (''one two'', ?pd)"
    by (simp add: MCPMessage_def demo_libs_def)
  have mi: "mapping_items (dict_get_default ?pd ''metadata'' (PDict [])) = Inr ?md"
    by (simp add: mapping_items_def)
  note T = upload_without_declared_type[OF t n c, of demo_libs new_ingestion_agent new_world]
  note S = T[THEN conjunct2, THEN conjunct2, THEN spec, THEN mp, OF fn, THEN conjunct2,
      THEN spec, THEN spec, THEN spec, THEN mp, OF conjI[OF lower_report tab], THEN conjunct2,
      THEN spec, THEN spec, THEN spec, THEN mp, OF conjI[OF dp mi]]
  from S obtain cs meta doc_id where
    m: "KStr ''parser_type'' \<notin> fst ` set ?md \<longrightarrow> dict_get meta ''parser_type'' = PStr ''pdf''"
       "KStr ''file_type'' \<notin> fst ` set ?md \<longrightarrow>
          dict_get meta ''file_type'' = dict_get (payload ?M) ''file_type''" and
    r: "msg_type (fst (ingestion_handle_message demo_libs new_ingestion_agent new_world ?M)) =
          ''DOCUMENT_PARSED''" and
    g: "get_document (fst (snd (ingestion_handle_message demo_libs new_ingestion_agent new_world ?M)))
          doc_id =
        Some [(KStr ''id'', PStr doc_id),
              (KStr ''name'', PStr ''Report.PDF''),
              (KStr ''type'', dict_get (payload ?M) ''file_type''),
              (KStr ''content'', PStr ''one two''),
              (KStr ''chunks'', PList cs),
              (KStr ''metadata'', PDict meta)]"
    by (elim exE conjE)
  have m': "dict_get meta ''parser_type'' = PStr ''pdf''" "dict_get meta ''file_type'' = PNone"
    using m ft by simp_all
  have ex: "\<exists>doc_id cs meta.
      get_document (fst (snd (ingestion_handle_message demo_libs new_ingestion_agent new_world ?M)))
          doc_id =
        Some [(KStr ''id'', PStr doc_id),
              (KStr ''name'', PStr ''Report.PDF''),
              (KStr ''type'', PNone),
              (KStr ''content'', PStr ''one two''),
              (KStr ''chunks'', PList cs),
              (KStr ''metadata'', PDict meta)] \<and>
      dict_get meta ''parser_type'' = PStr ''pdf'' \<and>
      dict_get meta ''file_type'' = PNone"
    using g[unfolded ft] m' by (intro exI conjI)
  have t2: "msg_type ?N = ''DOCUMENT_UPLOAD''" by (simp add: MCPMessage_def)
  have n2: "truthy (dict_get (payload ?N) ''file_name'')" by (simp add: MCPMessage_def)
  have c2: "truthy (dict_get (payload ?N) ''file_content'')" by (simp add: MCPMessage_def)
  have fn2: "dict_get (payload ?N) ''file_name'' = PStr ''notes.xyz''"
    by (simp add: MCPMessage_def)
  note U = upload_without_declared_type[OF t2 n2 c2, of demo_libs new_ingestion_agent new_world]
  note V = U[THEN conjunct2, THEN conjunct2, THEN spec, THEN mp, OF fn2, THEN conjunct1,
      THEN mp, OF no_parser_xyz, THEN conjunct1]
  show ?thesis
    using t n c ft r ex V by (intro conjI)
qed


section \<open>Retrieval Agent: indexing a batch\<close>

lemma index_warning_yes [simp]:
  "is_index_warning (''Warning: Failed to index chunk '' @ s)"
  by (simp add: is_index_warning_def)

lemma index_warning_no [simp]:
  "\<not> is_index_warning (''Warning: Failed to generate embedding: '' @ s)"
  by (simp add: is_index_warning_def)


lemma index_warnings_updates [simp]:
  "index_warnings (w\<lparr>rand_calls := r\<rparr>) = index_warnings w"
  "index_warnings (w\<lparr>objects := h, next_addr := a\<rparr>) = index_warnings w"
  "index_warnings (snd (create_response_message L w m s t p)) = index_warnings w"
  "index_warnings (snd (create_error_message L w m s e)) = index_warnings w"
  by (simp_all add: index_warnings_def)













text \<open>
  The hypothesis that the chunks are dictionaries is needed: for a chunk that is a string
  the warning itself fails (\<open>chunk.get\<close>), and the batch ends in an error.
\<close>

lemma index_document_non_dict_chunk:
  "msg_type (fst (index_document demo_libs new_retrieval_agent new_world
      (MCPMessage ''2025-01-01T00:00:00'' ''IngestionAgent'' ''CoordinatorAgent''
         ''DOCUMENT_PARSED'' ''trace-1'' [(KStr ''chunks'', PList [PStr ''x''])] None))) = ''ERROR''"
  by (simp add: index_document_def MCPMessage_def Let_def py_iter_def index_chunk_def
      py_getitem_def skip_chunk_def py_get_method_def)

section \<open>Coordinator: the query workflow\<close>

lemma embedding_fallback_invoked [simp]:
  "invoked (snd (embedding_fallback L w e)) = invoked w"
  by (simp add: embedding_fallback_def py_print_def)

lemma generate_embedding_invoked [simp]:
  "invoked (snd (snd (generate_embedding L g w t))) = invoked w"
  by (simp add: generate_embedding_def Let_def split: option.splits sum.splits)

lemma retrieve_context_invoked:
  "invoked (snd (snd (retrieve_context L ra w m))) = invoked w"
proof -
  obtain e g1 w1 where ge:
    "generate_embedding L (embedder ra) w (dict_get (payload m) ''query'') = (e, g1, w1)"
    by (cases "generate_embedding L (embedder ra) w (dict_get (payload m) ''query'')") auto
  have "invoked w1 = invoked w"
    using generate_embedding_invoked[of L "embedder ra" w "dict_get (payload m) ''query''"] ge
    by simp
  then show ?thesis
    by (simp add: retrieve_context_def ge Let_def split: sum.splits prod.splits)
qed

lemma query_retrieval_invoked:
  "invoked (snd (snd (query_retrieval L co w m))) = invoked w @ [''RetrievalAgent'']"
  by (simp add: query_retrieval_def retrieval_handle_message_def retrieval_request_def
      retrieve_context_invoked entered_def Let_def)

lemma route_message_history [simp]:
  "message_history (route_message r m) = message_history r @ [m]"
  by (simp add: route_message_def Let_def)

text \<open>
  Claim C3. When, in the query workflow, the Retrieval Agent answers the retrieval request
  with a message of type \<open>ERROR\<close>, the Coordinator returns a message of type \<open>ERROR\<close>
  with \<open>status = failed\<close> whose error text is \<open>Retrieval failed: \<close> followed by the
  agent's own error text; the only sub-agent entered is the Retrieval Agent, so the Response
  Synthesizer is never called, and the router has recorded the request and the retrieval
  response only. The entry point returns a message on every input: it is a total function.
\<close>

theorem query_retrieval_error_stops_workflow:
  assumes "msg_type message = ''QUERY_REQUEST''"
    and "msg_type (fst (query_retrieval L co w message)) = ''ERROR''"
  shows "\<exists>out co' w'. coordinator_handle_message L co w message = (out, co', w') \<and>
      msg_type out = ''ERROR'' \<and>
      dict_get (payload out) ''status'' = PStr ''failed'' \<and>
      dict_get (payload out) ''error'' =
        PStr (''Retrieval failed: '' @
              py_str L (dict_get (payload (fst (query_retrieval L co w message))) ''error'')) \<and>
      invoked w' = invoked w @ [''RetrievalAgent''] \<and>
      message_history (router co') =
        message_history (router co) @ [message, fst (query_retrieval L co w message)]"
proof -
  let ?co = "co\<lparr>router := route_message (router co) message\<rparr>"
  have q: "query_retrieval L ?co w message = query_retrieval L co w message"
    by (simp add: query_retrieval_def)
  obtain resp ra w2 where r: "query_retrieval L co w message = (resp, ra, w2)"
    by (cases "query_retrieval L co w message") auto
  have e: "msg_type resp = ''ERROR''" using assms(2) r by simp
  have inv: "invoked w2 = invoked w @ [''RetrievalAgent'']"
    using query_retrieval_invoked[of L co w message] r by simp
  show ?thesis
    using assms(1) e inv
    by (simp add: coordinator_handle_message_def handle_query_request_def q r Let_def
        failure_payload_def respond_def)
qed


lemma query_retrieval_empty_query:
  assumes "\<not> truthy (dict_get (payload m) ''query'')"
  shows "msg_type (fst (query_retrieval L co w m)) = ''ERROR''"
    and "dict_get (payload (fst (query_retrieval L co w m))) ''error'' =
         PStr ''No query provided for retrieval''"
  using assms
  by (simp_all add: query_retrieval_def retrieval_handle_message_def retrieval_request_def
      retrieve_context_def Let_def)

text \<open>
  The example of the claim: a query request whose query is the empty string. The Retrieval
  Agent answers \<open>No query provided for retrieval\<close>.
\<close>

theorem query_retrieval_error_stops_workflow_witness:
  "msg_type (MCPMessage ''2025-01-01T00:00:00'' ''ui'' ''CoordinatorAgent'' ''QUERY_REQUEST''
      ''trace-1'' [(KStr ''query'', PStr [])] None) = ''QUERY_REQUEST'' \<and>
   msg_type (fst (query_retrieval demo_libs new_coordinator new_world
      (MCPMessage ''2025-01-01T00:00:00'' ''ui'' ''CoordinatorAgent'' ''QUERY_REQUEST''
         ''trace-1'' [(KStr ''query'', PStr [])] None))) = ''ERROR'' \<and>
   (\<exists>out co' w'.
      coordinator_handle_message demo_libs new_coordinator new_world
        (MCPMessage ''2025-01-01T00:00:00'' ''ui'' ''CoordinatorAgent'' ''QUERY_REQUEST''
           ''trace-1'' [(KStr ''query'', PStr [])] None) = (out, co', w') \<and>
      msg_type out = ''ERROR'' \<and>
      dict_get (payload out) ''error'' = PStr ''Retrieval failed: No query provided for retrieval'' \<and>
      invoked w' = [''RetrievalAgent''])"
proof -
  let ?M = "MCPMessage ''2025-01-01T00:00:00'' ''ui'' ''CoordinatorAgent'' ''QUERY_REQUEST''
      ''trace-1'' [(KStr ''query'', PStr [])] None"
  have t: "msg_type ?M = ''QUERY_REQUEST''" by (simp add: MCPMessage_def)
  have nq: "\<not> truthy (dict_get (payload ?M) ''query'')"
    by (simp add: MCPMessage_def)
  have e: "msg_type (fst (query_retrieval demo_libs new_coordinator new_world ?M)) = ''ERROR''"
    by (rule query_retrieval_empty_query(1)[OF nq])
  have etext: "dict_get (payload (fst (query_retrieval demo_libs new_coordinator new_world ?M))) ''error'' =
         PStr ''No query provided for retrieval''"
    by (rule query_retrieval_empty_query(2)[OF nq])
  have i: "invoked new_world = []" by (simp add: new_world_def)
  from query_retrieval_error_stops_workflow[OF t e]
  show ?thesis
    using t e unfolding etext i by (auto simp: py_str_def)
qed

lemma search_empty_index: "index_rows vs = [] \<Longrightarrow> search L vs q k = Inr []"
  by (simp add: search_def)

text \<open>
  Claim C8. The generator answers an empty list of chunks with the fixed message; a search
  on an index without vectors returns no result; and so a query request with a query that
  is not empty, run while the index holds no vector, ends in a message of type \<open>SUCCESS\<close>
  that carries the fixed message, an empty list of sources and zero context chunks.
\<close>

theorem query_on_empty_index:
  assumes "msg_type message = ''QUERY_REQUEST''"
    and "truthy (dict_get (payload message) ''query'')"
    and "index_rows (store (retrieval co)) = []"
  shows "generate_response L q (PList []) h = no_context_response \<and>
     search L (store (retrieval co)) qe k = Inr [] \<and>
     (\<exists>out co' w'. coordinator_handle_message L co w message = (out, co', w') \<and>
        msg_type out = ''SUCCESS'' \<and>
        dict_get (payload out) ''status'' = PStr ''success'' \<and>
        dict_get (payload out) ''response'' = PStr no_context_response \<and>
        dict_get (payload out) ''sources'' = PList [] \<and>
        dict_get (payload out) ''context_chunks_used'' = PInt 0)"
proof -
  let ?q = "dict_get (payload message) ''query''"
  let ?w1 = "entered (snd (retrieval_request L w message)) ''RetrievalAgent''"
  obtain e g1 w1 where ge: "generate_embedding L (embedder (retrieval co)) ?w1 ?q = (e, g1, w1)"
    by (cases "generate_embedding L (embedder (retrieval co)) ?w1 ?q") auto
  have s: "search L (store (retrieval co)) e (PInt 5) = Inr []"
    by (rule search_empty_index[OF assms(3)])
  let ?resp = "create_response_message L w1 (fst (retrieval_request L w message)) ''RetrievalAgent''
       ''RETRIEVAL_RESULT''
       [(KStr ''status'', PStr ''success''), (KStr ''query'', ?q),
        (KStr ''retrieved_chunks'', PList []), (KStr ''sources'', PList []),
        (KStr ''total_results'', PInt 0)]"
  have qr: "query_retrieval L co w message =
      (fst ?resp, (retrieval co)\<lparr>embedder := g1\<rparr>, snd ?resp)"
    using assms(2)
    by (simp add: query_retrieval_def retrieval_handle_message_def retrieval_request_def
        retrieve_context_def Let_def ge[unfolded retrieval_request_def] s sum_bind_def
        respond_def)
  have a: "generate_response L q (PList []) h = no_context_response"
    by (simp add: generate_response_def)
  have b: "search L (store (retrieval co)) qe k = Inr []"
    by (rule search_empty_index[OF assms(3)])
  have q': "query_retrieval L (co\<lparr>router := route_message (router co) message\<rparr>) w message =
      query_retrieval L co w message"
    by (simp add: query_retrieval_def)
  have c: "\<exists>out co' w'. coordinator_handle_message L co w message = (out, co', w') \<and>
        msg_type out = ''SUCCESS'' \<and>
        dict_get (payload out) ''status'' = PStr ''success'' \<and>
        dict_get (payload out) ''response'' = PStr no_context_response \<and>
        dict_get (payload out) ''sources'' = PList [] \<and>
        dict_get (payload out) ''context_chunks_used'' = PInt 0"
    using assms(1,2)
    by (simp add: coordinator_handle_message_def handle_query_request_def q' qr Let_def
        llm_handle_message_def llm_generate_def generate_response_def py_len_def
        respond_def case_prod_beta)
  show ?thesis using a b c by blast
qed


text \<open>A query put to the freshly created coordinator satisfies the hypotheses.\<close>

theorem query_on_empty_index_witness:
  "msg_type (MCPMessage ''2025-01-01T00:00:00'' ''ui'' ''CoordinatorAgent'' ''QUERY_REQUEST''
      ''trace-1'' [(KStr ''query'', PStr ''what is a chunk'')] None) = ''QUERY_REQUEST'' \<and>
   truthy (dict_get (payload (MCPMessage ''2025-01-01T00:00:00'' ''ui'' ''CoordinatorAgent''
      ''QUERY_REQUEST'' ''trace-1'' [(KStr ''query'', PStr ''what is a chunk'')] None)) ''query'') \<and>
   index_rows (store (retrieval new_coordinator)) = [] \<and>
   (\<exists>out co' w'.
      coordinator_handle_message demo_libs new_coordinator new_world
        (MCPMessage ''2025-01-01T00:00:00'' ''ui'' ''CoordinatorAgent'' ''QUERY_REQUEST''
           ''trace-1'' [(KStr ''query'', PStr ''what is a chunk'')] None) = (out, co', w') \<and>
      msg_type out = ''SUCCESS'' \<and>
      dict_get (payload out) ''response'' = PStr no_context_response \<and>
      dict_get (payload out) ''sources'' = PList [])"
proof -
  let ?M = "MCPMessage ''2025-01-01T00:00:00'' ''ui'' ''CoordinatorAgent'' ''QUERY_REQUEST''
      ''trace-1'' [(KStr ''query'', PStr ''what is a chunk'')] None"
  have t: "msg_type ?M = ''QUERY_REQUEST''" by (simp add: MCPMessage_def)
  have q: "truthy (dict_get (payload ?M) ''query'')" by (simp add: MCPMessage_def)
  have i: "index_rows (store (retrieval new_coordinator)) = []"
    by (simp add: new_coordinator_def new_retrieval_agent_def new_vector_store_def)
  from query_on_empty_index[OF t q i, of demo_libs PNone PNone "[]" PNone new_world]
  show ?thesis using t q i by blast
qed

end
